theory Spec2Isabelle
  imports Main "HOL-Library.Word"
begin

section \<open>JavaScript strings and JSON values\<close>

text \<open>
  A JavaScript string is a sequence of 16-bit code units. \<open>str\<close> embeds an ASCII
  literal of the source.
\<close>

type_synonym code_unit = "16 word"
type_synonym jsstring = "code_unit list"

definition str :: "string \<Rightarrow> jsstring" where
  "str s = map of_char s"

text \<open>
  The values the page handles at run time. The TypeScript annotations (\<open>Clip\<close>,
  \<open>ApiResponse\<close>) are erased, so the decoded response is any JSON value; \<open>JUndefined\<close>
  is the value of an absent property and of \<open>s3_url: undefined\<close>. Numbers are IEEE doubles
  in the source; the model keeps them abstract (type \<open>'n\<close>) and takes the two operations
  the page applies to them from the platform record below. An object is the ordered list of
  its own properties.
\<close>

datatype 'n jsval =
    JUndefined
  | JNull
  | JBool bool
  | JNum 'n
  | JStr jsstring
  | JArr "'n jsval list"
  | JObj "(jsstring \<times> 'n jsval) list"

text \<open>
  A thrown value: an instance of \<open>Error\<close> with its \<open>message\<close>, or anything else.
  The catch clause of \<open>handleSubmit\<close> tells the two apart with \<open>instanceof\<close>.
\<close>

datatype thrown = Error_instance jsstring | Non_error

datatype type_error_site = Nullish_read | Not_callable

text \<open>
  What the JavaScript engine supplies and the repository does not define: \<open>JSON.parse\<close>
  on a string, the printing and the truth value of a number, and the message text of the
  \<open>TypeError\<close> raised by a property read on \<open>null\<close>/\<open>undefined\<close> or by a call of
  something that is not a function.
\<close>

record 'n platform =
  JSON_parse :: "jsstring \<Rightarrow> thrown + 'n jsval"
  Number_toString :: "'n \<Rightarrow> jsstring"
  Number_falsy :: "'n \<Rightarrow> bool"
  TypeError_message :: "type_error_site \<Rightarrow> jsstring"

definition TypeError :: "'n platform \<Rightarrow> type_error_site \<Rightarrow> thrown" where
  "TypeError P site = Error_instance (TypeError_message P site)"

text \<open>Truthiness, as used by \<open>if (x)\<close>, \<open>x || y\<close> and \<open>{x && ...}\<close>.\<close>

fun ToBoolean :: "'n platform \<Rightarrow> 'n jsval \<Rightarrow> bool" where
  "ToBoolean P JUndefined = False"
| "ToBoolean P JNull = False"
| "ToBoolean P (JBool b) = b"
| "ToBoolean P (JNum n) = (\<not> Number_falsy P n)"
| "ToBoolean P (JStr s) = (s \<noteq> [])"
| "ToBoolean P (JArr xs) = True"
| "ToBoolean P (JObj props) = True"

definition or_else :: "'n platform \<Rightarrow> 'n jsval \<Rightarrow> 'n jsval \<Rightarrow> 'n jsval" where
  "or_else P x y = (if ToBoolean P x then x else y)"

fun join_comma :: "jsstring list \<Rightarrow> jsstring" where
  "join_comma [] = []"
| "join_comma [s] = s"
| "join_comma (s # t # ss) = s @ str '','' @ join_comma (t # ss)"

text \<open>
  The string conversion \<open>JSON.parse\<close> applies to its argument. An array prints its
  elements joined by commas, \<open>null\<close> and \<open>undefined\<close> elements as the empty string; an
  object prints as \<open>[object Object]\<close>.
\<close>

fun ToString :: "'n platform \<Rightarrow> 'n jsval \<Rightarrow> jsstring" where
  "ToString P JUndefined = str ''undefined''"
| "ToString P JNull = str ''null''"
| "ToString P (JBool b) = (if b then str ''true'' else str ''false'')"
| "ToString P (JNum n) = Number_toString P n"
| "ToString P (JStr s) = s"
| "ToString P (JArr xs) =
     join_comma (map (\<lambda>x. if x = JUndefined \<or> x = JNull then [] else ToString P x) xs)"
| "ToString P (JObj props) = str ''[object Object]''"

definition own_property :: "(jsstring \<times> 'n jsval) list \<Rightarrow> jsstring \<Rightarrow> 'n jsval" where
  "own_property props k = (case map_of props k of None \<Rightarrow> JUndefined | Some v \<Rightarrow> v)"

text \<open>
  The property read \<open>v.k\<close>. It is used at the names \<open>body\<close>, \<open>clips\<close>, \<open>video_id\<close> and
  \<open>s3_url\<close> only; no prototype of a JSON value defines one of them, so a read from a
  primitive or an array gives \<open>undefined\<close>, and a read from \<open>null\<close> or \<open>undefined\<close> throws.
\<close>

fun read_property :: "'n platform \<Rightarrow> 'n jsval \<Rightarrow> jsstring \<Rightarrow> thrown + 'n jsval" where
  "read_property P JUndefined k = Inl (TypeError P Nullish_read)"
| "read_property P JNull k = Inl (TypeError P Nullish_read)"
| "read_property P (JObj props) k = Inr (own_property props k)"
| "read_property P (JBool b) k = Inr JUndefined"
| "read_property P (JNum n) k = Inr JUndefined"
| "read_property P (JStr s) k = Inr JUndefined"
| "read_property P (JArr xs) k = Inr JUndefined"

text \<open>Array indices as property names: the decimal digits of the index.\<close>

fun decimal :: "nat \<Rightarrow> jsstring" where
  "decimal n =
     (if n < 10 then [48 + of_nat n] else decimal (n div 10) @ [48 + of_nat (n mod 10)])"

declare decimal.simps [simp del]

text \<open>
  The own enumerable properties the spread \<open>...clip\<close> copies: those of an object, the
  indexed elements of an array, the indexed characters of a string, none of another value.
\<close>

fun own_enumerable :: "'n jsval \<Rightarrow> (jsstring \<times> 'n jsval) list" where
  "own_enumerable (JObj props) = props"
| "own_enumerable (JArr xs) = zip (map decimal [0..<length xs]) xs"
| "own_enumerable (JStr s) = zip (map decimal [0..<length s]) (map (\<lambda>c. JStr [c]) s)"
| "own_enumerable JUndefined = []"
| "own_enumerable JNull = []"
| "own_enumerable (JBool b) = []"
| "own_enumerable (JNum n) = []"

text \<open>
  Defining a property in an object literal: an existing name keeps its place and takes the
  new value, a new name goes last.
\<close>

fun set_property :: "jsstring \<Rightarrow> 'n jsval \<Rightarrow> (jsstring \<times> 'n jsval) list \<Rightarrow> (jsstring \<times> 'n jsval) list" where
  "set_property k v [] = [(k, v)]"
| "set_property k v (p # ps) = (if fst p = k then (k, v) # ps else p # set_property k v ps)"

text \<open>
  \<open>xs.map(f)\<close> on a JSON value: an array maps, \<open>null\<close> and \<open>undefined\<close> cannot be read,
  and no other JSON value has a callable \<open>map\<close>.
\<close>

fun call_map :: "'n platform \<Rightarrow> 'n jsval \<Rightarrow> ('n jsval \<Rightarrow> 'n jsval) \<Rightarrow> thrown + 'n jsval" where
  "call_map P JUndefined f = Inl (TypeError P Nullish_read)"
| "call_map P JNull f = Inl (TypeError P Nullish_read)"
| "call_map P (JArr xs) f = Inr (JArr (map f xs))"
| "call_map P (JBool b) f = Inl (TypeError P Not_callable)"
| "call_map P (JNum n) f = Inl (TypeError P Not_callable)"
| "call_map P (JStr s) f = Inl (TypeError P Not_callable)"
| "call_map P (JObj props) f = Inl (TypeError P Not_callable)"

section \<open>The page component (Home)\<close>

text \<open>
  The six \<open>useState\<close> cells of \<open>Home\<close>, and what the component does to the outside:
  the requests it has sent, the number of them not yet settled, and the lines it has
  written with \<open>console.log\<close>. \<open>clips\<close>, \<open>videoId\<close> and \<open>debugData\<close> hold whatever
  value the response carried.
\<close>

record request =
  endpoint :: jsstring
  http_method :: jsstring
  youtube_url :: jsstring

record 'n home =
  url :: jsstring
  isLoading :: bool
  clips :: "'n jsval"
  error :: jsstring
  videoId :: "'n jsval"
  debugData :: "'n jsval"
  requests :: "request list"
  in_flight :: nat
  console :: "'n jsval list list"

definition Home_initial :: "'n home" where
  "Home_initial =
     \<lparr>url = [], isLoading = False, clips = JArr [], error = [], videoId = JStr [],
      debugData = JNull, requests = [], in_flight = 0, console = []\<rparr>"

text \<open>
  How the awaited calls of \<open>handleSubmit\<close> end: \<open>fetch\<close> rejects, or resolves to a
  response with its \<open>ok\<close> flag and the result of \<open>response.json()\<close>, which rejects when
  the body is not JSON.
\<close>

datatype 'n fetch_outcome =
    Fetch_rejects thrown
  | Fetch_resolves bool "thrown + 'n jsval"

definition clip_request :: "jsstring \<Rightarrow> request" where
  "clip_request youtubeUrl =
     \<lparr>endpoint = str ''http://127.0.0.1:5000/clip'', http_method = str ''POST'',
      youtube_url = youtubeUrl\<rparr>"

text \<open>
  \<open>handleSubmit\<close> up to its first \<open>await\<close>: the four setters, and the call of \<open>fetch\<close>.
\<close>

definition handleSubmit_start :: "jsstring \<Rightarrow> 'n home \<Rightarrow> 'n home" where
  "handleSubmit_start youtubeUrl s =
     s\<lparr>isLoading := True, error := [], clips := JArr [], videoId := JStr [],
       requests := requests s @ [clip_request youtubeUrl],
       in_flight := Suc (in_flight s)\<rparr>"

text \<open>
  The envelope: \<open>if (responseData.body) data = JSON.parse(responseData.body) else
  data = responseData\<close>. The test is truthiness, and \<open>JSON.parse\<close> converts its argument
  to a string first.
\<close>

definition unwrap_envelope :: "'n platform \<Rightarrow> 'n jsval \<Rightarrow> thrown + 'n jsval" where
  "unwrap_envelope P responseData =
     (case read_property P responseData (str ''body'') of
        Inl t \<Rightarrow> Inl t
      | Inr b \<Rightarrow>
          if ToBoolean P b then JSON_parse P (ToString P b) else Inr responseData)"

text \<open>The try block from the \<open>fetch\<close> to the assignment of \<open>data\<close>; no setter is called.\<close>

definition received_data :: "'n platform \<Rightarrow> 'n fetch_outcome \<Rightarrow> thrown + 'n jsval" where
  "received_data P outcome =
     (case outcome of
        Fetch_rejects t \<Rightarrow> Inl t
      | Fetch_resolves ok body \<Rightarrow>
          if \<not> ok then Inl (Error_instance (str ''Failed to process video''))
          else (case body of
                  Inl t \<Rightarrow> Inl t
                | Inr responseData \<Rightarrow> unwrap_envelope P responseData))"

text \<open>The object literal \<open>{...clip, s3_url: undefined}\<close>.\<close>

definition sanitize :: "'n jsval \<Rightarrow> 'n jsval" where
  "sanitize clip = JObj (set_property (str ''s3_url'') JUndefined (own_enumerable clip))"

text \<open>
  The rest of the try block: the three log lines, \<open>setClips\<close>, \<open>setVideoId\<close>, the
  sanitising \<open>map\<close> and \<open>setDebugData\<close>. The result is the state reached and the value
  thrown, if any; a throw leaves the setters already called in effect.
\<close>

definition publish :: "'n platform \<Rightarrow> 'n jsval \<Rightarrow> 'n home \<Rightarrow> 'n home \<times> thrown option" where
  "publish P data s =
     (let s1 = s\<lparr>console := console s @ [[JStr (str ''API Response:''), data]]\<rparr> in
      case read_property P data (str ''clips'') of
        Inl t \<Rightarrow> (s1, Some t)
      | Inr c \<Rightarrow>
          (let s2 = s1\<lparr>console := console s1 @ [[JStr (str ''Clips:''), c]]\<rparr> in
           case read_property P data (str ''video_id'') of
             Inl t \<Rightarrow> (s2, Some t)
           | Inr v \<Rightarrow>
               (let s3 = s2\<lparr>console := console s2 @ [[JStr (str ''Video ID:''), v]]\<rparr>;
                    s4 = s3\<lparr>clips := or_else P c (JArr [])\<rparr>;
                    s5 = s4\<lparr>videoId := or_else P v (JStr [])\<rparr>
                in case call_map P c sanitize of
                     Inl t \<Rightarrow> (s5, Some t)
                   | Inr sanitizedClips \<Rightarrow> (s5\<lparr>debugData := sanitizedClips\<rparr>, None))))"

definition try_block :: "'n platform \<Rightarrow> 'n fetch_outcome \<Rightarrow> 'n home \<Rightarrow> 'n home \<times> thrown option" where
  "try_block P outcome s =
     (case received_data P outcome of
        Inl t \<Rightarrow> (s, Some t)
      | Inr data \<Rightarrow> publish P data s)"

text \<open>The catch clause: \<open>setError(err instanceof Error ? err.message : 'An error occurred')\<close>.\<close>

definition thrown_message :: "thrown \<Rightarrow> jsstring" where
  "thrown_message err =
     (case err of
        Error_instance m \<Rightarrow> m
      | Non_error \<Rightarrow> str ''An error occurred'')"

definition catch_clause :: "thrown \<Rightarrow> 'n home \<Rightarrow> 'n home" where
  "catch_clause err s = s\<lparr>error := thrown_message err\<rparr>"

text \<open>
  \<open>handleSubmit\<close> from the settling of the request on: try block, catch clause, and the
  \<open>finally\<close> clause \<open>setIsLoading(false)\<close>. It returns a state on every path: the catch
  clause takes every thrown value and neither it nor the \<open>finally\<close> clause can throw.
  The request that settles is no longer outstanding; \<open>handleSubmit_settle\<close> is applied to
  states with a request outstanding.
\<close>

definition handleSubmit_settle :: "'n platform \<Rightarrow> 'n fetch_outcome \<Rightarrow> 'n home \<Rightarrow> 'n home" where
  "handleSubmit_settle P outcome s =
     (case try_block P outcome (s\<lparr>in_flight := in_flight s - 1\<rparr>) of
        (s1, None) \<Rightarrow> s1\<lparr>isLoading := False\<rparr>
      | (s1, Some err) \<Rightarrow> (catch_clause err s1)\<lparr>isLoading := False\<rparr>)"

definition handleSubmit :: "'n platform \<Rightarrow> 'n fetch_outcome \<Rightarrow> jsstring \<Rightarrow> 'n home \<Rightarrow> 'n home" where
  "handleSubmit P outcome youtubeUrl s =
     handleSubmit_settle P outcome (handleSubmit_start youtubeUrl s)"

text \<open>
  The debug section of the page, \<open>{debugData && <pre>{JSON.stringify(debugData, null,
  2)}</pre>}\<close>: it is there when \<open>debugData\<close> is truthy, and its text is a function of
  the value \<open>JSON.stringify\<close> walks: a property whose value is \<open>undefined\<close> is left out
  of an object, and an \<open>undefined\<close> array element prints as \<open>null\<close>.
\<close>

fun serialised :: "'n jsval \<Rightarrow> 'n jsval" where
  "serialised (JObj props) =
     JObj (map (\<lambda>p. (fst p, serialised (snd p))) (filter (\<lambda>p. snd p \<noteq> JUndefined) props))"
| "serialised (JArr xs) = JArr (map (\<lambda>x. if x = JUndefined then JNull else serialised x) xs)"
| "serialised JUndefined = JUndefined"
| "serialised JNull = JNull"
| "serialised (JBool b) = JBool b"
| "serialised (JNum n) = JNum n"
| "serialised (JStr s) = JStr s"

definition debug_section :: "'n platform \<Rightarrow> 'n home \<Rightarrow> 'n jsval option" where
  "debug_section P s =
     (if ToBoolean P (debugData s) then Some (serialised (debugData s)) else None)"

section \<open>The URL form (UrlInput)\<close>

text \<open>
  \<open>String.prototype.trim\<close> removes the white space and line terminator code units
  from both ends.
\<close>

definition is_trimmed_unit :: "code_unit \<Rightarrow> bool" where
  "is_trimmed_unit c =
     (c \<in> set [0x0009, 0x000A, 0x000B, 0x000C, 0x000D, 0x0020, 0x00A0, 0x1680,
               0x2000, 0x2001, 0x2002, 0x2003, 0x2004, 0x2005, 0x2006, 0x2007,
               0x2008, 0x2009, 0x200A, 0x2028, 0x2029, 0x202F, 0x205F, 0x3000, 0xFEFF])"

definition trim :: "jsstring \<Rightarrow> jsstring" where
  "trim s = rev (dropWhile is_trimmed_unit (rev (dropWhile is_trimmed_unit s)))"

text \<open>
  The regular expression of \<open>isValidYoutubeUrl\<close>,
  \<^verbatim>\<open>/^(https?:\/\/)?(www\.)?(youtube\.com|youtu\.be)\/.+/\<close>, as a backtracking matcher:
  a piece maps a string to the remainders it can leave, in the order the engine tries them.
  The pattern is anchored at the start and has no flags; \<open>.\<close> is any code unit but a
  line terminator.
\<close>

type_synonym matcher = "jsstring \<Rightarrow> jsstring list"

definition literal :: "jsstring \<Rightarrow> matcher" where
  "literal l s = (if take (length l) s = l then [drop (length l) s] else [])"

definition optional :: "matcher \<Rightarrow> matcher" where
  "optional m s = m s @ [s]"

definition either :: "matcher \<Rightarrow> matcher \<Rightarrow> matcher" where
  "either m1 m2 s = m1 s @ m2 s"

definition followed_by :: "matcher \<Rightarrow> matcher \<Rightarrow> matcher" where
  "followed_by m1 m2 s = concat (map m2 (m1 s))"

definition is_line_terminator :: "code_unit \<Rightarrow> bool" where
  "is_line_terminator c = (c \<in> set [0x000A, 0x000D, 0x2028, 0x2029])"

definition dot_plus :: matcher where
  "dot_plus s =
     map (\<lambda>n. drop n s)
       (rev [1..<Suc (length (takeWhile (\<lambda>c. \<not> is_line_terminator c) s))])"

definition youtubeRegex :: matcher where
  "youtubeRegex =
     followed_by (optional (followed_by (literal (str ''http''))
                    (followed_by (optional (literal (str ''s''))) (literal (str ''://'')))))
    (followed_by (optional (literal (str ''www.'')))
    (followed_by (either (literal (str ''youtube.com'')) (literal (str ''youtu.be'')))
    (followed_by (literal (str ''/'')) dot_plus)))"

definition isValidYoutubeUrl :: "jsstring \<Rightarrow> bool" where
  "isValidYoutubeUrl field = (youtubeRegex field \<noteq> [])"

text \<open>
  The submit handler of the form: \<open>if (url.trim() && !isLoading) onSubmit(url.trim())\<close>.
  The result is the argument \<open>onSubmit\<close> is called with, if it is called. The handler
  reads the field's text and the \<open>isLoading\<close> prop; it does not call \<open>isValidYoutubeUrl\<close>.
\<close>

definition UrlInput_handleSubmit :: "jsstring \<Rightarrow> bool \<Rightarrow> jsstring option" where
  "UrlInput_handleSubmit field loading =
     (if trim field \<noteq> [] \<and> \<not> loading then Some (trim field) else None)"

text \<open>
  The \<open>disabled\<close> attribute of the submit button,
  \<open>!url.trim() || !isValidYoutubeUrl(url) || isLoading\<close>, and the condition of the hint
  \<open>Please enter a valid YouTube URL\<close>, \<open>url && !isValidYoutubeUrl(url)\<close>.
\<close>

definition submit_disabled :: "jsstring \<Rightarrow> bool \<Rightarrow> bool" where
  "submit_disabled field loading =
     (trim field = [] \<or> \<not> isValidYoutubeUrl field \<or> loading)"

definition shows_invalid_hint :: "jsstring \<Rightarrow> bool" where
  "shows_invalid_hint field = (field \<noteq> [] \<and> \<not> isValidYoutubeUrl field)"

text \<open>
  A submit event of the form, with \<open>Home\<close>'s \<open>isLoading\<close> as the prop and
  \<open>Home\<close>'s \<open>handleSubmit\<close> as \<open>onSubmit\<close>, up to the first \<open>await\<close>.
\<close>

definition form_submit :: "jsstring \<Rightarrow> 'n home \<Rightarrow> 'n home" where
  "form_submit field s =
     (case UrlInput_handleSubmit field (isLoading s) of
        None \<Rightarrow> s
      | Some youtubeUrl \<Rightarrow> handleSubmit_start youtubeUrl s)"

text \<open>
  A submission by the user, with a press of the submit button or with the Enter key in
  the field: the form gets no submit event while its submit button is disabled.
\<close>

definition press_submit :: "jsstring \<Rightarrow> 'n home \<Rightarrow> 'n home" where
  "press_submit field s =
     (if submit_disabled field (isLoading s) then s else form_submit field s)"

text \<open>
  The life of one page: submit events of the form and settlements of the outstanding
  request, in any order. A settlement needs a request that has not settled yet.
\<close>

datatype 'n event = Form_submit jsstring | Settles "'n fetch_outcome"

fun step :: "'n platform \<Rightarrow> 'n home \<Rightarrow> 'n event \<Rightarrow> 'n home" where
  "step P s (Form_submit field) = form_submit field s"
| "step P s (Settles outcome) =
     (if in_flight s = 0 then s else handleSubmit_settle P outcome s)"

definition run :: "'n platform \<Rightarrow> 'n event list \<Rightarrow> 'n home" where
  "run P evs = foldl (step P) Home_initial evs"

section \<open>The clip card (ClipCard)\<close>

text \<open>
  The four \<open>useState\<close> cells of one card, and what the card does to the outside: the
  texts it has put on the clipboard, its pending timers (delay in milliseconds and
  callback), the files it has offered for saving, and the failures it has written with
  \<open>console.error\<close>.
\<close>

datatype timer_callback = Set_copied bool

record card =
  loading :: bool
  showPreview :: bool
  copied :: bool
  liked :: bool
  clipboard_texts :: "jsstring list"
  timers :: "(nat \<times> timer_callback) list"
  saved_files :: "jsstring list"
  console_errors :: "thrown list"

definition card_initial :: card where
  "card_initial =
     \<lparr>loading = False, showPreview = False, copied = False, liked = False,
      clipboard_texts = [], timers = [], saved_files = [], console_errors = []\<rparr>"

text \<open>
  The clipboard as \<open>copyUrl\<close> meets it: \<open>navigator.clipboard\<close> is missing (the read of
  \<open>writeText\<close> throws), or \<open>writeText\<close> returns a promise that later resolves or
  rejects. \<open>copyUrl\<close> does not await the promise and attaches no handler to it.
\<close>

datatype clipboard_outcome = Clipboard_absent | Write_resolves | Write_rejects thrown

text \<open>
  \<open>copyUrl\<close>: \<open>navigator.clipboard.writeText(clip.s3_url); setCopied(true);
  setTimeout(() => setCopied(false), 2000)\<close>. The result is the state reached and the
  value thrown out of \<open>copyUrl\<close>, if any.
\<close>

definition copyUrl ::
    "'n platform \<Rightarrow> clipboard_outcome \<Rightarrow> 'n jsval \<Rightarrow> card \<Rightarrow> card \<times> thrown option" where
  "copyUrl P clipboard clip c =
     (case clipboard of
        Clipboard_absent \<Rightarrow> (c, Some (TypeError P Nullish_read))
      | Write_resolves \<Rightarrow>
          (case read_property P clip (str ''s3_url'') of
             Inl t \<Rightarrow> (c, Some t)
           | Inr u \<Rightarrow>
               (c\<lparr>clipboard_texts := clipboard_texts c @ [ToString P u], copied := True,
                  timers := timers c @ [(2000, Set_copied False)]\<rparr>, None))
      | Write_rejects r \<Rightarrow>
          (case read_property P clip (str ''s3_url'') of
             Inl t \<Rightarrow> (c, Some t)
           | Inr u \<Rightarrow>
               (c\<lparr>copied := True, timers := timers c @ [(2000, Set_copied False)]\<rparr>, None)))"

fun run_callback :: "timer_callback \<Rightarrow> card \<Rightarrow> card" where
  "run_callback (Set_copied b) c = c\<lparr>copied := b\<rparr>"

text \<open>The \<open>i\<close>-th pending timer fires: it leaves the list and its callback runs.\<close>

definition timer_fires :: "nat \<Rightarrow> card \<Rightarrow> card" where
  "timer_fires i c =
     (if i < length (timers c)
      then run_callback (snd (timers c ! i))
             (c\<lparr>timers := take i (timers c) @ drop (Suc i) (timers c)\<rparr>)
      else c)"

definition toggleLike :: "card \<Rightarrow> card" where
  "toggleLike c = c\<lparr>liked := \<not> liked c\<rparr>"

definition handlePreview :: "card \<Rightarrow> card" where
  "handlePreview c = c\<lparr>showPreview := True\<rparr>"

definition closePreview :: "card \<Rightarrow> card" where
  "closePreview c = c\<lparr>showPreview := False\<rparr>"

text \<open>\<open>s.split(sep)\<close> for a separator of one code unit.\<close>

fun split_on :: "code_unit \<Rightarrow> jsstring \<Rightarrow> jsstring list" where
  "split_on sep [] = [[]]"
| "split_on sep (c # cs) =
     (if c = sep then [] # split_on sep cs
      else (case split_on sep cs of
              [] \<Rightarrow> [[c]]
            | p # ps \<Rightarrow> (c # p) # ps))"

text \<open>\<open>xs.pop()\<close>: the last element, \<open>undefined\<close> (here \<open>None\<close>) on an empty array.\<close>

fun pop :: "'a list \<Rightarrow> 'a option" where
  "pop [] = None"
| "pop [x] = Some x"
| "pop (x # y # ys) = pop (y # ys)"

text \<open>
  \<open>clip.s3_url.split('/').pop()?.split('?')[0] || 'clip.mp4'\<close>. A value that is not a
  string has no \<open>split\<close> to call.
\<close>

definition fileName :: "'n platform \<Rightarrow> 'n jsval \<Rightarrow> thrown + jsstring" where
  "fileName P s3_url =
     (case s3_url of
        JStr s \<Rightarrow>
          (case pop (split_on (of_char CHR ''/'') s) of
             None \<Rightarrow> Inr (str ''clip.mp4'')
           | Some l \<Rightarrow>
               (case split_on (of_char CHR ''?'') l of
                  [] \<Rightarrow> Inr (str ''clip.mp4'')
                | name # rest \<Rightarrow> Inr (if name \<noteq> [] then name else str ''clip.mp4'')))
      | JUndefined \<Rightarrow> Inl (TypeError P Nullish_read)
      | JNull \<Rightarrow> Inl (TypeError P Nullish_read)
      | JBool b \<Rightarrow> Inl (TypeError P Not_callable)
      | JNum n \<Rightarrow> Inl (TypeError P Not_callable)
      | JArr xs \<Rightarrow> Inl (TypeError P Not_callable)
      | JObj props \<Rightarrow> Inl (TypeError P Not_callable))"

text \<open>
  How the awaited calls of \<open>handleDownload\<close> end: \<open>fetch\<close> rejects, \<open>response.blob()\<close>
  rejects, or the bytes arrive.
\<close>

datatype download_outcome =
    Download_fetch_rejects thrown
  | Download_blob_rejects thrown
  | Download_blob_resolves

definition handleDownload_start :: "card \<Rightarrow> card" where
  "handleDownload_start c = c\<lparr>loading := True\<rparr>"

text \<open>
  The try block of \<open>handleDownload\<close>: the fetch, the blob, the file name, and the click
  on the temporary link that offers the file for saving.
\<close>

definition download_try ::
    "'n platform \<Rightarrow> download_outcome \<Rightarrow> 'n jsval \<Rightarrow> card \<Rightarrow> card \<times> thrown option" where
  "download_try P outcome clip c =
     (case read_property P clip (str ''s3_url'') of
        Inl t \<Rightarrow> (c, Some t)
      | Inr u \<Rightarrow>
          (case outcome of
             Download_fetch_rejects t \<Rightarrow> (c, Some t)
           | Download_blob_rejects t \<Rightarrow> (c, Some t)
           | Download_blob_resolves \<Rightarrow>
               (case fileName P u of
                  Inl t \<Rightarrow> (c, Some t)
                | Inr name \<Rightarrow> (c\<lparr>saved_files := saved_files c @ [name]\<rparr>, None))))"

text \<open>
  \<open>handleDownload\<close> from the settling of the fetch on: try block, the catch clause
  \<open>console.error('Download failed:', err)\<close>, and the \<open>finally\<close> clause
  \<open>setLoading(false)\<close>.
\<close>

definition handleDownload_settle ::
    "'n platform \<Rightarrow> download_outcome \<Rightarrow> 'n jsval \<Rightarrow> card \<Rightarrow> card" where
  "handleDownload_settle P outcome clip c =
     (case download_try P outcome clip c of
        (c1, None) \<Rightarrow> c1\<lparr>loading := False\<rparr>
      | (c1, Some err) \<Rightarrow> c1\<lparr>console_errors := console_errors c1 @ [err], loading := False\<rparr>)"

definition handleDownload ::
    "'n platform \<Rightarrow> download_outcome \<Rightarrow> 'n jsval \<Rightarrow> card \<Rightarrow> card" where
  "handleDownload P outcome clip c =
     handleDownload_settle P outcome clip (handleDownload_start c)"

text \<open>
  The grid renders one card per clip, each with state of its own: an operation on the
  card at position \<open>i\<close> is an update of that position.
\<close>

definition on_card :: "nat \<Rightarrow> (card \<Rightarrow> card) \<Rightarrow> card list \<Rightarrow> card list" where
  "on_card i f cards = (if i < length cards then cards[i := f (cards ! i)] else cards)"

section \<open>Notions the properties are stated with\<close>

text \<open>
  The value of \<open>data.clips\<close>, when the try block of \<open>handleSubmit\<close> gets as far as
  reading it, and whether \<open>setClips(data.clips || [])\<close> stores that value.
\<close>

definition clips_field :: "'n platform \<Rightarrow> 'n fetch_outcome \<Rightarrow> 'n jsval option" where
  "clips_field P outcome =
     (case received_data P outcome of
        Inl t \<Rightarrow> None
      | Inr data \<Rightarrow>
          (case read_property P data (str ''clips'') of
             Inl t \<Rightarrow> None
           | Inr c \<Rightarrow> Some c))"

definition clips_field_truthy :: "'n platform \<Rightarrow> 'n fetch_outcome \<Rightarrow> bool" where
  "clips_field_truthy P outcome =
     (case clips_field P outcome of None \<Rightarrow> False | Some c \<Rightarrow> ToBoolean P c)"

text \<open>
  A value as a JSON decoder builds it: no \<open>undefined\<close> inside, and no object with a
  property name twice.
\<close>

fun is_JSON :: "'n jsval \<Rightarrow> bool" where
  "is_JSON JUndefined = False"
| "is_JSON JNull = True"
| "is_JSON (JBool b) = True"
| "is_JSON (JNum n) = True"
| "is_JSON (JStr s) = True"
| "is_JSON (JArr xs) = list_all is_JSON xs"
| "is_JSON (JObj props) = (distinct (map fst props) \<and> list_all (\<lambda>p. is_JSON (snd p)) props)"

definition is_clip_object :: "'n jsval \<Rightarrow> bool" where
  "is_clip_object c = (case c of JObj props \<Rightarrow> is_JSON c | _ \<Rightarrow> False)"

text \<open>
  The specification's words, "the normalized clips with the \<open>s3_url\<close> field removed":
  the object without any property of that name.
\<close>

definition spec_without_s3_url :: "'n jsval \<Rightarrow> 'n jsval" where
  "spec_without_s3_url clip =
     (case clip of
        JObj props \<Rightarrow> JObj (filter (\<lambda>p. fst p \<noteq> str ''s3_url'') props)
      | _ \<Rightarrow> clip)"

definition has_property :: "jsstring \<Rightarrow> 'n jsval \<Rightarrow> bool" where
  "has_property k v = (case v of JObj props \<Rightarrow> k \<in> fst ` set props | _ \<Rightarrow> False)"

text \<open>
  The value thrown inside the try block of \<open>handleSubmit\<close>, if any. It is the same from
  every state, since the try block reads no state.
\<close>

definition thrown_in_try :: "'n platform \<Rightarrow> 'n fetch_outcome \<Rightarrow> thrown option" where
  "thrown_in_try P outcome = snd (try_block P outcome Home_initial)"

text \<open>
  The specification's words for the URL pattern, "optional scheme, optional \<open>www.\<close>,
  host \<open>youtube.com\<close> or \<open>youtu.be\<close>, non-empty path": the text starts with one of
  the twelve prefixes so formed, a slash included, and goes on with a code unit that is
  not a line terminator.
\<close>

definition url_prefixes :: "jsstring list" where
  "url_prefixes =
     concat (map (\<lambda>scheme.
       concat (map (\<lambda>www.
         map (\<lambda>host. scheme @ www @ host @ str ''/'')
           [str ''youtube.com'', str ''youtu.be''])
         [str ''www.'', []]))
       [str ''https://'', str ''http://'', []])"

definition starts_path :: "jsstring \<Rightarrow> bool" where
  "starts_path s = (case s of [] \<Rightarrow> False | c # rest \<Rightarrow> \<not> is_line_terminator c)"

text \<open>\<open>begins l Q s\<close>: the text \<open>s\<close> begins with \<open>l\<close>, and what follows satisfies \<open>Q\<close>.\<close>

definition begins :: "jsstring \<Rightarrow> (jsstring \<Rightarrow> bool) \<Rightarrow> jsstring \<Rightarrow> bool" where
  "begins l Q s = (take (length l) s = l \<and> Q (drop (length l) s))"

definition spec_video_url :: "jsstring \<Rightarrow> bool" where
  "spec_video_url field = list_ex (\<lambda>pre. begins pre starts_path field) url_prefixes"

section \<open>Sample data\<close>

text \<open>
  An engine for the samples, with natural numbers for numbers: \<open>JSON.parse\<close> knows one
  text, the payload \<^verbatim>\<open>{"video_id":"v1","clips":[]}\<close>, and rejects every other with the
  \<open>SyntaxError\<close>'s message; the \<open>TypeError\<close> messages are V8's.
\<close>

definition sample_payload :: "nat jsval" where
  "sample_payload = JObj [(str ''video_id'', JStr (str ''v1'')), (str ''clips'', JArr [])]"

definition sample_payload_text :: jsstring where
  \<open>sample_payload_text = str ''{"video_id":"v1","clips":[]}''\<close>

definition sample_platform :: "nat platform" where
  "sample_platform =
     \<lparr>JSON_parse = (\<lambda>s. if s = sample_payload_text then Inr sample_payload
                        else Inl (Error_instance (str ''Unexpected token in JSON''))),
      Number_toString = decimal,
      Number_falsy = (\<lambda>n. n = 0),
      TypeError_message = (\<lambda>site. case site of
                             Nullish_read \<Rightarrow> str ''Cannot read properties of undefined''
                           | Not_callable \<Rightarrow> str ''data.clips.map is not a function'')\<rparr>"

definition sample_clip :: "nat jsval" where
  "sample_clip =
     JObj [(str ''clip_id'', JStr (str ''c1'')),
           (str ''s3_url'', JStr (str ''https://bucket.example/c1.mp4?sig=abc'')),
           (str ''start_time'', JNum 0),
           (str ''end_time'', JNum 5),
           (str ''duration'', JNum 5),
           (str ''interest_score'', JNum 87),
           (str ''interest_reasons'', JArr [JStr (str ''humor'')]),
           (str ''transcript_text'', JStr (str ''hello'')),
           (str ''file_size_formatted'', JStr (str ''1.2 MB'')),
           (str ''resolution'', JStr (str ''720p'')),
           (str ''expires_at'', JNull)]"

definition sample_clip_without_start_time :: "nat jsval" where
  "sample_clip_without_start_time =
     JObj [(str ''clip_id'', JStr (str ''c2'')),
           (str ''s3_url'', JStr (str ''https://bucket.example/c2.mp4?sig=def'')),
           (str ''end_time'', JNum 9),
           (str ''duration'', JNum 4),
           (str ''interest_score'', JNum 50),
           (str ''interest_reasons'', JArr []),
           (str ''transcript_text'', JStr (str ''bye'')),
           (str ''file_size_formatted'', JStr (str ''0.9 MB'')),
           (str ''resolution'', JStr (str ''720p'')),
           (str ''expires_at'', JNull)]"

definition sample_batch :: "nat jsval" where
  "sample_batch =
     JObj [(str ''video_id'', JStr (str ''v1'')),
           (str ''clips'', JArr [sample_clip, sample_clip_without_start_time])]"

section \<open>Facts about handleSubmit\<close>

lemmas submit_defs =
  handleSubmit_def handleSubmit_start_def handleSubmit_settle_def try_block_def
  received_data_def unwrap_envelope_def publish_def catch_clause_def thrown_message_def
  or_else_def own_property_def TypeError_def sanitize_def clip_request_def Home_initial_def

lemma read_property_array:
  assumes "read_property P data k = Inr (JArr cs)"
  obtains props where "data = JObj props" and "own_property props k = JArr cs"
  using assms by (cases data) auto

lemma publish_array:
  assumes "read_property P data (str ''clips'') = Inr (JArr cs)"
  shows "snd (publish P data s) = None"
    and "clips (fst (publish P data s)) = JArr cs"
    and "debugData (fst (publish P data s)) = JArr (map sanitize cs)"
    and "error (fst (publish P data s)) = error s"
    and "isLoading (fst (publish P data s)) = isLoading s"
proof -
  from assms obtain props where d: "data = JObj props"
    and c: "own_property props (str ''clips'') = JArr cs"
    by (rule read_property_array)
  show "snd (publish P data s) = None"
    and "clips (fst (publish P data s)) = JArr cs"
    and "debugData (fst (publish P data s)) = JArr (map sanitize cs)"
    and "error (fst (publish P data s)) = error s"
    and "isLoading (fst (publish P data s)) = isLoading s"
    by (simp_all add: publish_def d c or_else_def Let_def)
qed

lemma handleSubmit_settle_alt:
  "handleSubmit_settle P outcome s =
     (case snd (try_block P outcome (s\<lparr>in_flight := in_flight s - 1\<rparr>)) of
        None \<Rightarrow> fst (try_block P outcome (s\<lparr>in_flight := in_flight s - 1\<rparr>))
      | Some err \<Rightarrow> catch_clause err (fst (try_block P outcome (s\<lparr>in_flight := in_flight s - 1\<rparr>))))
     \<lparr>isLoading := False\<rparr>"
  by (simp add: handleSubmit_settle_def split: prod.splits option.splits)

lemma handleSubmit_settle_array:
  assumes "received_data P outcome = Inr data"
    and "read_property P data (str ''clips'') = Inr (JArr cs)"
  shows "clips (handleSubmit_settle P outcome s) = JArr cs"
    and "debugData (handleSubmit_settle P outcome s) = JArr (map sanitize cs)"
    and "error (handleSubmit_settle P outcome s) = error s"
    and "isLoading (handleSubmit_settle P outcome s) = False"
  using publish_array [OF assms(2)]
  by (simp_all add: handleSubmit_settle_alt try_block_def assms(1))

lemma handleSubmit_array:
  assumes "received_data P outcome = Inr data"
    and "read_property P data (str ''clips'') = Inr (JArr cs)"
  shows "clips (handleSubmit P outcome youtubeUrl s) = JArr cs"
    and "debugData (handleSubmit P outcome youtubeUrl s) = JArr (map sanitize cs)"
    and "error (handleSubmit P outcome youtubeUrl s) = []"
    and "isLoading (handleSubmit P outcome youtubeUrl s) = False"
  using handleSubmit_settle_array [OF assms]
  by (simp_all add: handleSubmit_def handleSubmit_start_def)

lemma publish_absent_clips:
  assumes "own_property props (str ''clips'') = JUndefined"
  shows "publish P (JObj props) s =
    (s\<lparr>console := console s @ [[JStr (str ''API Response:''), JObj props],
                                [JStr (str ''Clips:''), JUndefined],
                                [JStr (str ''Video ID:''), own_property props (str ''video_id'')]],
       clips := JArr [],
       videoId := or_else P (own_property props (str ''video_id'')) (JStr [])\<rparr>,
     Some (TypeError P Nullish_read))"
  by (simp add: publish_def assms or_else_def Let_def)

lemma received_data_direct:
  assumes "\<not> ToBoolean P (own_property props (str ''body''))"
  shows "received_data P (Fetch_resolves True (Inr (JObj props))) = Inr (JObj props)"
  by (simp add: received_data_def unwrap_envelope_def assms)

lemma received_data_envelope:
  assumes "t \<noteq> []"
  shows "received_data P (Fetch_resolves True (Inr (JObj [(str ''body'', JStr t)]))) = JSON_parse P t"
  by (simp add: received_data_def unwrap_envelope_def own_property_def assms)

lemma handleSubmit_depends_on_received_data:
  assumes "received_data P outcome = received_data P outcome'"
  shows "handleSubmit P outcome youtubeUrl s = handleSubmit P outcome' youtubeUrl s"
  by (simp add: handleSubmit_def handleSubmit_settle_def try_block_def assms)

lemma snd_publish:
  "snd (publish P data s) = snd (publish P data s')"
  by (simp add: publish_def Let_def split: sum.splits)

lemma snd_try_block:
  "snd (try_block P outcome s) = thrown_in_try P outcome"
  unfolding thrown_in_try_def try_block_def
  by (simp add: snd_publish [of P _ s Home_initial] split: sum.splits)

lemma publish_frame:
  "isLoading (fst (publish P data s)) = isLoading s"
  "error (fst (publish P data s)) = error s"
  "requests (fst (publish P data s)) = requests s"
  "in_flight (fst (publish P data s)) = in_flight s"
  "url (fst (publish P data s)) = url s"
  by (simp_all add: publish_def Let_def split: sum.splits)

lemma try_block_frame:
  "isLoading (fst (try_block P outcome s)) = isLoading s"
  "error (fst (try_block P outcome s)) = error s"
  "requests (fst (try_block P outcome s)) = requests s"
  "in_flight (fst (try_block P outcome s)) = in_flight s"
  "url (fst (try_block P outcome s)) = url s"
  by (simp_all add: try_block_def publish_frame split: sum.splits)

lemma publish_thrown_debugData:
  "snd (publish P data s) = Some err \<Longrightarrow> debugData (fst (publish P data s)) = debugData s"
  by (simp add: publish_def Let_def split: sum.splits)

lemma try_block_thrown_debugData:
  "thrown_in_try P outcome = Some err \<Longrightarrow> debugData (fst (try_block P outcome s)) = debugData s"
  using snd_try_block [of P outcome s]
  by (auto simp add: try_block_def publish_thrown_debugData split: sum.splits)

lemma try_block_clips:
  assumes "\<not> clips_field_truthy P outcome" and "thrown_in_try P outcome = Some err"
  shows "clips (fst (try_block P outcome s)) = clips s \<or> clips (fst (try_block P outcome s)) = JArr []"
  using assms snd_try_block [of P outcome s]
  by (auto simp add: try_block_def clips_field_truthy_def clips_field_def publish_def Let_def or_else_def
      split: sum.splits)

lemma handleSubmit_alt:
  "handleSubmit P outcome youtubeUrl s =
     (case thrown_in_try P outcome of
        None \<Rightarrow> fst (try_block P outcome ((handleSubmit_start youtubeUrl s)\<lparr>in_flight := in_flight s\<rparr>))
      | Some err \<Rightarrow> catch_clause err (fst (try_block P outcome ((handleSubmit_start youtubeUrl s)\<lparr>in_flight := in_flight s\<rparr>))))
     \<lparr>isLoading := False\<rparr>"
proof -
  have "in_flight (handleSubmit_start youtubeUrl s) - 1 = in_flight s"
    by (simp add: handleSubmit_start_def)
  then show ?thesis
    by (cases "thrown_in_try P outcome")
       (simp_all add: handleSubmit_def handleSubmit_settle_alt snd_try_block)
qed

lemma form_submit_while_loading:
  "isLoading s \<Longrightarrow> form_submit field s = s"
  by (simp add: form_submit_def UrlInput_handleSubmit_def)

lemma press_submit_while_loading:
  "isLoading s \<Longrightarrow> press_submit field s = s"
  by (simp add: press_submit_def submit_disabled_def)

lemma handleSubmit_settle_frame:
  "isLoading (handleSubmit_settle P outcome s) = False"
  "in_flight (handleSubmit_settle P outcome s) = in_flight s - 1"
  "requests (handleSubmit_settle P outcome s) = requests s"
  by (cases "snd (try_block P outcome (s\<lparr>in_flight := in_flight s - 1\<rparr>))";
      simp add: handleSubmit_settle_alt try_block_frame catch_clause_def)+

lemma step_keeps_one_request:
  assumes "in_flight s = (if isLoading s then 1 else 0)"
  shows "in_flight (step P s ev) = (if isLoading (step P s ev) then 1 else 0)"
proof (cases ev)
  case (Form_submit field)
  then show ?thesis
    using assms
    by (simp add: form_submit_def UrlInput_handleSubmit_def handleSubmit_start_def)
next
  case (Settles outcome)
  then show ?thesis
    using assms by (simp add: handleSubmit_settle_frame)
qed

lemma foldl_step_keeps_one_request:
  "in_flight s = (if isLoading s then 1 else 0) \<Longrightarrow>
   in_flight (foldl (step P) s evs) = (if isLoading (foldl (step P) s evs) then 1 else 0)"
proof (induction evs arbitrary: s)
  case Nil
  then show ?case by simp
next
  case (Cons ev evs)
  from Cons.prems have "in_flight (step P s ev) = (if isLoading (step P s ev) then 1 else 0)"
    by (rule step_keeps_one_request)
  then show ?case
    using Cons.IH [of "step P s ev"] by simp
qed

lemma run_keeps_one_request:
  "in_flight (run P evs) = (if isLoading (run P evs) then 1 else 0)"
  unfolding run_def
  by (rule foldl_step_keeps_one_request) (simp add: Home_initial_def)

lemma publish_stored_before_throw:
  assumes "read_property P data (str ''clips'') = Inr c"
    and "ToBoolean P c"
    and "call_map P c sanitize = Inl t"
  shows "snd (publish P data s) = Some t"
    and "clips (fst (publish P data s)) = c"
proof -
  from assms(1) obtain v where v: "read_property P data (str ''video_id'') = Inr v"
    by (cases data) simp_all
  show "snd (publish P data s) = Some t" and "clips (fst (publish P data s)) = c"
    by (simp_all add: publish_def Let_def assms v or_else_def)
qed

lemma handleSubmit_error_message:
  assumes "thrown_in_try P outcome = Some err"
  shows "error (handleSubmit P outcome youtubeUrl s) = thrown_message err"
    and "isLoading (handleSubmit P outcome youtubeUrl s) = False"
    and "debugData (handleSubmit P outcome youtubeUrl s) = debugData s"
proof -
  let ?s0 = "(handleSubmit_start youtubeUrl s)\<lparr>in_flight := in_flight s\<rparr>"
  have h: "handleSubmit P outcome youtubeUrl s
         = (catch_clause err (fst (try_block P outcome ?s0)))\<lparr>isLoading := False\<rparr>"
    by (simp add: handleSubmit_alt assms)
  show "error (handleSubmit P outcome youtubeUrl s) = thrown_message err"
    by (simp add: h catch_clause_def)
  show "isLoading (handleSubmit P outcome youtubeUrl s) = False"
    by (simp add: h)
  show "debugData (handleSubmit P outcome youtubeUrl s) = debugData s"
    using try_block_thrown_debugData [OF assms, of ?s0]
    by (simp add: h catch_clause_def) (simp add: handleSubmit_start_def)
qed

lemma failure_before_setClips_leaves_clips_empty:
  assumes "thrown_in_try P outcome = Some err" and "\<not> clips_field_truthy P outcome"
  shows "clips (handleSubmit P outcome youtubeUrl s) = JArr []"
proof -
  let ?s0 = "(handleSubmit_start youtubeUrl s)\<lparr>in_flight := in_flight s\<rparr>"
  have h: "handleSubmit P outcome youtubeUrl s
         = (catch_clause err (fst (try_block P outcome ?s0)))\<lparr>isLoading := False\<rparr>"
    by (simp add: handleSubmit_alt assms(1))
  show ?thesis
    using try_block_clips [OF assms(2,1), of ?s0]
    by (auto simp add: h catch_clause_def handleSubmit_start_def)
qed

lemma transport_failure_is_captured:
  "error (handleSubmit P (Fetch_rejects err) youtubeUrl s) = thrown_message err"
  "clips (handleSubmit P (Fetch_rejects err) youtubeUrl s) = JArr []"
  "isLoading (handleSubmit P (Fetch_rejects err) youtubeUrl s) = False"
proof -
  have t: "thrown_in_try P (Fetch_rejects err) = Some err"
    by (simp add: thrown_in_try_def try_block_def received_data_def)
  have c: "\<not> clips_field_truthy P (Fetch_rejects err)"
    by (simp add: clips_field_truthy_def clips_field_def received_data_def)
  show "error (handleSubmit P (Fetch_rejects err) youtubeUrl s) = thrown_message err"
    by (rule handleSubmit_error_message(1) [OF t])
  show "clips (handleSubmit P (Fetch_rejects err) youtubeUrl s) = JArr []"
    by (rule failure_before_setClips_leaves_clips_empty [OF t c])
  show "isLoading (handleSubmit P (Fetch_rejects err) youtubeUrl s) = False"
    by (rule handleSubmit_error_message(2) [OF t])
qed

lemma error_message_of_a_thrown_non_error:
  "error (handleSubmit P (Fetch_rejects Non_error) youtubeUrl s) = str ''An error occurred''"
  by (simp add: transport_failure_is_captured thrown_message_def)

lemma error_message_of_a_thrown_Error:
  "error (handleSubmit P (Fetch_rejects (Error_instance m)) youtubeUrl s) = m"
  by (simp add: transport_failure_is_captured thrown_message_def)

lemma status_not_ok_is_captured:
  "error (handleSubmit P (Fetch_resolves False body) youtubeUrl s) = str ''Failed to process video''"
  "clips (handleSubmit P (Fetch_resolves False body) youtubeUrl s) = JArr []"
  "isLoading (handleSubmit P (Fetch_resolves False body) youtubeUrl s) = False"
proof -
  let ?e = "Error_instance (str ''Failed to process video'')"
  have t: "thrown_in_try P (Fetch_resolves False body) = Some ?e"
    by (simp add: thrown_in_try_def try_block_def received_data_def)
  have c: "\<not> clips_field_truthy P (Fetch_resolves False body)"
    by (simp add: clips_field_truthy_def clips_field_def received_data_def)
  show "error (handleSubmit P (Fetch_resolves False body) youtubeUrl s) = str ''Failed to process video''"
    using handleSubmit_error_message(1) [OF t] by (simp add: thrown_message_def)
  show "clips (handleSubmit P (Fetch_resolves False body) youtubeUrl s) = JArr []"
    by (rule failure_before_setClips_leaves_clips_empty [OF t c])
  show "isLoading (handleSubmit P (Fetch_resolves False body) youtubeUrl s) = False"
    by (rule handleSubmit_error_message(2) [OF t])
qed

lemma publish_console:
  assumes "read_property P data (str ''clips'') = Inr c"
  shows "[JStr (str ''API Response:''), data] \<in> set (console (fst (publish P data s)))"
    and "[JStr (str ''Clips:''), c] \<in> set (console (fst (publish P data s)))"
proof -
  from assms obtain v where v: "read_property P data (str ''video_id'') = Inr v"
    by (cases data) simp_all
  show "[JStr (str ''API Response:''), data] \<in> set (console (fst (publish P data s)))"
    and "[JStr (str ''Clips:''), c] \<in> set (console (fst (publish P data s)))"
    by (simp_all add: publish_def Let_def assms v split: sum.splits)
qed

lemma handleSubmit_console:
  assumes "received_data P outcome = Inr data"
    and "read_property P data (str ''clips'') = Inr c"
  shows "[JStr (str ''API Response:''), data] \<in> set (console (handleSubmit P outcome youtubeUrl s))"
    and "[JStr (str ''Clips:''), c] \<in> set (console (handleSubmit P outcome youtubeUrl s))"
proof -
  let ?s0 = "(handleSubmit_start youtubeUrl s)\<lparr>in_flight := in_flight s\<rparr>"
  have p: "try_block P outcome ?s0 = publish P data ?s0"
    by (simp add: try_block_def assms(1))
  have k: "console (handleSubmit P outcome youtubeUrl s) = console (fst (publish P data ?s0))"
    by (cases "thrown_in_try P outcome") (simp_all add: handleSubmit_alt p catch_clause_def)
  show "[JStr (str ''API Response:''), data] \<in> set (console (handleSubmit P outcome youtubeUrl s))"
    and "[JStr (str ''Clips:''), c] \<in> set (console (handleSubmit P outcome youtubeUrl s))"
    using publish_console [OF assms(2), of ?s0] by (simp_all add: k)
qed

section \<open>Facts about the URL pattern\<close>

lemma followed_by_literal:
  "followed_by (literal l) m s \<noteq> [] \<longleftrightarrow> begins l (\<lambda>r. m r \<noteq> []) s"
  by (simp add: followed_by_def literal_def begins_def)

lemma followed_by_optional:
  "followed_by (optional a) m s \<noteq> [] \<longleftrightarrow> followed_by a m s \<noteq> [] \<or> m s \<noteq> []"
  by (simp add: followed_by_def optional_def)

lemma followed_by_either:
  "followed_by (either a b) m s \<noteq> [] \<longleftrightarrow> followed_by a m s \<noteq> [] \<or> followed_by b m s \<noteq> []"
  by (simp add: followed_by_def either_def)

lemma concat_map_concat:
  "concat (map f (concat xss)) = concat (map (\<lambda>xs. concat (map f xs)) xss)"
  by (induction xss) simp_all

lemma followed_by_assoc:
  "followed_by (followed_by a b) c = followed_by a (followed_by b c)"
  by (rule ext) (simp add: followed_by_def [abs_def] concat_map_concat comp_def)

lemma dot_plus_starts_path:
  "dot_plus s \<noteq> [] \<longleftrightarrow> starts_path s"
  by (cases s) (simp_all add: dot_plus_def starts_path_def)

lemma take_append_literal:
  "take (length a + length b) s = a @ b
   \<longleftrightarrow> take (length a) s = a \<and> take (length b) (drop (length a) s) = b"
  (is "?L \<longleftrightarrow> ?R")
proof
  assume l: ?L
  then have "length (take (length a + length b) s) = length a + length b"
    by simp
  then have "length a \<le> length s"
    by simp
  then have "length (take (length a) s) = length a"
    by simp
  with l show ?R
    by (simp add: take_add)
next
  assume ?R
  then show ?L
    by (simp add: take_add)
qed

lemma begins_append:
  "begins (a @ b) Q = begins a (begins b Q)"
  by (rule ext) (auto simp add: begins_def take_append_literal add.commute)

lemma begins_or:
  "begins l (\<lambda>r. A r \<or> B r) s \<longleftrightarrow> begins l A s \<or> begins l B s"
  by (auto simp add: begins_def)

lemma begins_Nil:
  "begins [] Q = Q"
  by (rule ext) (simp add: begins_def)

lemma scheme_literals:
  "str ''https://'' = str ''http'' @ str ''s'' @ str ''://''"
  "str ''http://'' = str ''http'' @ str ''://''"
  by (simp_all add: str_def)

lemma isValidYoutubeUrl_is_the_pattern:
  "isValidYoutubeUrl field \<longleftrightarrow> spec_video_url field"
proof -
  have r: "isValidYoutubeUrl field \<longleftrightarrow>
      begins (str ''http'') (begins (str ''s'') (begins (str ''://'') (begins (str ''www.'')
        (begins (str ''youtube.com'') (begins (str ''/'') starts_path))))) field
    \<or> begins (str ''http'') (begins (str ''s'') (begins (str ''://'') (begins (str ''www.'')
        (begins (str ''youtu.be'') (begins (str ''/'') starts_path))))) field
    \<or> begins (str ''http'') (begins (str ''s'') (begins (str ''://'')
        (begins (str ''youtube.com'') (begins (str ''/'') starts_path)))) field
    \<or> begins (str ''http'') (begins (str ''s'') (begins (str ''://'')
        (begins (str ''youtu.be'') (begins (str ''/'') starts_path)))) field
    \<or> begins (str ''http'') (begins (str ''://'') (begins (str ''www.'')
        (begins (str ''youtube.com'') (begins (str ''/'') starts_path)))) field
    \<or> begins (str ''http'') (begins (str ''://'') (begins (str ''www.'')
        (begins (str ''youtu.be'') (begins (str ''/'') starts_path)))) field
    \<or> begins (str ''http'') (begins (str ''://'')
        (begins (str ''youtube.com'') (begins (str ''/'') starts_path))) field
    \<or> begins (str ''http'') (begins (str ''://'')
        (begins (str ''youtu.be'') (begins (str ''/'') starts_path))) field
    \<or> begins (str ''www.'') (begins (str ''youtube.com'') (begins (str ''/'') starts_path)) field
    \<or> begins (str ''www.'') (begins (str ''youtu.be'') (begins (str ''/'') starts_path)) field
    \<or> begins (str ''youtube.com'') (begins (str ''/'') starts_path) field
    \<or> begins (str ''youtu.be'') (begins (str ''/'') starts_path) field"
    unfolding isValidYoutubeUrl_def youtubeRegex_def
    by (simp add: followed_by_optional followed_by_either followed_by_assoc followed_by_literal
        dot_plus_starts_path begins_or disj_commute disj_left_commute)
  have s: "spec_video_url field \<longleftrightarrow>
      begins (str ''http'') (begins (str ''s'') (begins (str ''://'') (begins (str ''www.'')
        (begins (str ''youtube.com'') (begins (str ''/'') starts_path))))) field
    \<or> begins (str ''http'') (begins (str ''s'') (begins (str ''://'') (begins (str ''www.'')
        (begins (str ''youtu.be'') (begins (str ''/'') starts_path))))) field
    \<or> begins (str ''http'') (begins (str ''s'') (begins (str ''://'')
        (begins (str ''youtube.com'') (begins (str ''/'') starts_path)))) field
    \<or> begins (str ''http'') (begins (str ''s'') (begins (str ''://'')
        (begins (str ''youtu.be'') (begins (str ''/'') starts_path)))) field
    \<or> begins (str ''http'') (begins (str ''://'') (begins (str ''www.'')
        (begins (str ''youtube.com'') (begins (str ''/'') starts_path)))) field
    \<or> begins (str ''http'') (begins (str ''://'') (begins (str ''www.'')
        (begins (str ''youtu.be'') (begins (str ''/'') starts_path)))) field
    \<or> begins (str ''http'') (begins (str ''://'')
        (begins (str ''youtube.com'') (begins (str ''/'') starts_path))) field
    \<or> begins (str ''http'') (begins (str ''://'')
        (begins (str ''youtu.be'') (begins (str ''/'') starts_path))) field
    \<or> begins (str ''www.'') (begins (str ''youtube.com'') (begins (str ''/'') starts_path)) field
    \<or> begins (str ''www.'') (begins (str ''youtu.be'') (begins (str ''/'') starts_path)) field
    \<or> begins (str ''youtube.com'') (begins (str ''/'') starts_path) field
    \<or> begins (str ''youtu.be'') (begins (str ''/'') starts_path) field"
    unfolding spec_video_url_def url_prefixes_def
    by (simp add: scheme_literals begins_append begins_Nil disj_commute disj_left_commute)
  show ?thesis
    unfolding r s ..
qed

lemma not_a_url_is_invalid:
  "\<not> spec_video_url (str ''not a url'')"
  by (simp add: spec_video_url_def url_prefixes_def begins_def str_def)

section \<open>Facts about the debug data\<close>

lemma serialised_JSON:
  "is_JSON v \<Longrightarrow> serialised v = v"
proof (induction v)
  case (JArr xs)
  then have "\<And>x. x \<in> set xs \<Longrightarrow> x \<noteq> JUndefined \<and> serialised x = x"
    by (auto simp add: list_all_iff)
  then have "map (\<lambda>x. if x = JUndefined then JNull else serialised x) xs = xs"
    by (simp add: map_idI)
  then show ?case by simp
next
  case (JObj props)
  then have a: "\<And>p. p \<in> set props \<Longrightarrow> snd p \<noteq> JUndefined \<and> serialised (snd p) = snd p"
    by (cases rule: prod.exhaust) (fastforce simp add: list_all_iff)
  then have "filter (\<lambda>p. snd p \<noteq> JUndefined) props = props"
    by simp
  moreover from a have "map (\<lambda>p. (fst p, serialised (snd p))) props = props"
    by (simp add: map_idI)
  ultimately show ?case by simp
qed simp_all

lemma filter_set_property:
  assumes "distinct (map fst props)" and "\<And>p. p \<in> set props \<Longrightarrow> snd p \<noteq> JUndefined"
  shows "filter (\<lambda>p. snd p \<noteq> JUndefined) (set_property k JUndefined props)
       = filter (\<lambda>p. fst p \<noteq> k) props"
  using assms
proof (induction props)
  case Nil
  then show ?case by simp
next
  case (Cons p ps)
  show ?case
  proof (cases "fst p = k")
    case True
    with Cons.prems(1) have "k \<notin> fst ` set ps"
      by auto
    then have "\<forall>q\<in>set ps. fst q \<noteq> k"
      by auto
    then have "filter (\<lambda>p. fst p \<noteq> k) ps = ps"
      by simp
    moreover from Cons.prems(2) have "filter (\<lambda>p. snd p \<noteq> JUndefined) ps = ps"
      by simp
    ultimately show ?thesis
      using True by simp
  next
    case False
    then show ?thesis
      using Cons by simp
  qed
qed

lemma serialised_sanitize:
  assumes "is_clip_object c"
  shows "serialised (sanitize c) = spec_without_s3_url c"
proof -
  from assms obtain props where c: "c = JObj props" and j: "is_JSON (JObj props)"
    by (auto simp add: is_clip_object_def split: jsval.splits)
  from j have d: "distinct (map fst props)"
    and v: "\<And>p. p \<in> set props \<Longrightarrow> is_JSON (snd p)"
    by (simp_all add: list_all_iff)
  have u: "\<And>p. p \<in> set props \<Longrightarrow> snd p \<noteq> JUndefined"
    using v by fastforce
  have "map (\<lambda>p. (fst p, serialised (snd p))) (filter (\<lambda>p. fst p \<noteq> str ''s3_url'') props)
      = filter (\<lambda>p. fst p \<noteq> str ''s3_url'') props"
    by (rule map_idI) (simp add: serialised_JSON v)
  then show ?thesis
    by (simp add: c sanitize_def spec_without_s3_url_def filter_set_property [OF d u])
qed

lemma sanitize_is_defined:
  "sanitize c \<noteq> JUndefined"
  by (simp add: sanitize_def)

lemma serialised_sanitized_clips:
  assumes "list_all is_clip_object cs"
  shows "serialised (JArr (map sanitize cs)) = JArr (map spec_without_s3_url cs)"
  using assms by (simp add: list_all_iff serialised_sanitize sanitize_is_defined)

lemma spec_without_s3_url_has_none:
  "\<not> has_property (str ''s3_url'') (spec_without_s3_url c)"
  by (auto simp add: has_property_def spec_without_s3_url_def split: jsval.splits)

section \<open>Facts about the clip card\<close>

lemma copyUrl_started:
  assumes "clipboard \<noteq> Clipboard_absent"
    and "read_property P clip (str ''s3_url'') = Inr u"
  shows "copyUrl P clipboard clip c =
     (c\<lparr>clipboard_texts := (if clipboard = Write_resolves
                              then clipboard_texts c @ [ToString P u] else clipboard_texts c),
        copied := True, timers := timers c @ [(2000, Set_copied False)]\<rparr>, None)"
  using assms by (cases clipboard) (simp_all add: copyUrl_def)

lemma download_try_frame:
  "loading (fst (download_try P outcome clip c)) = loading c"
  "showPreview (fst (download_try P outcome clip c)) = showPreview c"
  "copied (fst (download_try P outcome clip c)) = copied c"
  "liked (fst (download_try P outcome clip c)) = liked c"
  "timers (fst (download_try P outcome clip c)) = timers c"
  "clipboard_texts (fst (download_try P outcome clip c)) = clipboard_texts c"
  "console_errors (fst (download_try P outcome clip c)) = console_errors c"
  by (simp_all add: download_try_def split: sum.splits download_outcome.splits)

lemma download_try_thrown:
  "snd (download_try P outcome clip c) = Some err \<Longrightarrow> fst (download_try P outcome clip c) = c"
  by (simp add: download_try_def split: sum.splits download_outcome.splits)

lemma handleDownload_settle_alt:
  "handleDownload_settle P outcome clip c =
     (case snd (download_try P outcome clip c) of
        None \<Rightarrow> (fst (download_try P outcome clip c))\<lparr>loading := False\<rparr>
      | Some err \<Rightarrow> (fst (download_try P outcome clip c))
                     \<lparr>console_errors := console_errors (fst (download_try P outcome clip c)) @ [err],
                      loading := False\<rparr>)"
  by (simp add: handleDownload_settle_def split: prod.splits option.splits)

lemma handleDownload_settle_frame:
  "loading (handleDownload_settle P outcome clip c) = False"
  "showPreview (handleDownload_settle P outcome clip c) = showPreview c"
  "copied (handleDownload_settle P outcome clip c) = copied c"
  "liked (handleDownload_settle P outcome clip c) = liked c"
  "timers (handleDownload_settle P outcome clip c) = timers c"
  by (cases "snd (download_try P outcome clip c)";
      simp add: handleDownload_settle_alt download_try_frame)+

lemma handleDownload_settle_thrown:
  assumes "snd (download_try P outcome clip c) = Some err"
  shows "handleDownload_settle P outcome clip c
       = c\<lparr>console_errors := console_errors c @ [err], loading := False\<rparr>"
  by (simp add: handleDownload_settle_alt assms download_try_thrown [OF assms])

section \<open>The response normaliser\<close>

text \<open>
  C1, as the code has it. \<open>handleSubmit\<close> stores \<open>data.clips\<close> as it arrived: whenever
  the response (direct or unwrapped from the envelope) carries an array under \<open>clips\<close>,
  the clip list is that array, element for element and in order, whatever fields an
  element has or lacks, and the submission succeeds (no error message, loading flag
  reset). No element is dropped, so a clip without \<open>start_time\<close> stays in the list.
\<close>

theorem every_raw_clip_is_kept:
  assumes "received_data P outcome = Inr data"
    and "read_property P data (str ''clips'') = Inr (JArr cs)"
  shows "clips (handleSubmit P outcome youtubeUrl s) = JArr cs
       \<and> error (handleSubmit P outcome youtubeUrl s) = []
       \<and> \<not> isLoading (handleSubmit P outcome youtubeUrl s)"
  using handleSubmit_array [OF assms] by simp

theorem every_raw_clip_is_kept_witness:
  "received_data sample_platform (Fetch_resolves True (Inr sample_batch)) = Inr sample_batch
   \<and> read_property sample_platform sample_batch (str ''clips'')
       = Inr (JArr [sample_clip, sample_clip_without_start_time])
   \<and> clips (handleSubmit sample_platform (Fetch_resolves True (Inr sample_batch)) (str ''https://youtu.be/x'') Home_initial)
       = JArr [sample_clip, sample_clip_without_start_time]
   \<and> error (handleSubmit sample_platform (Fetch_resolves True (Inr sample_batch)) (str ''https://youtu.be/x'') Home_initial) = []
   \<and> \<not> isLoading (handleSubmit sample_platform (Fetch_resolves True (Inr sample_batch)) (str ''https://youtu.be/x'') Home_initial)"
proof -
  have r: "received_data sample_platform (Fetch_resolves True (Inr sample_batch)) = Inr sample_batch"
    by (simp add: received_data_def unwrap_envelope_def sample_batch_def own_property_def str_def)
  have c: "read_property sample_platform sample_batch (str ''clips'')
       = Inr (JArr [sample_clip, sample_clip_without_start_time])"
    by (simp add: sample_batch_def own_property_def str_def)
  show ?thesis
    using every_raw_clip_is_kept [OF r c, of "str ''https://youtu.be/x''" Home_initial] r c
    by simp
qed

text \<open>
  C1 as stated fails: for the batch of one complete clip and one clip without
  \<open>start_time\<close>, the clip list after a successful submission holds both.
\<close>

theorem clip_without_start_time_is_kept:
  "clips (handleSubmit sample_platform (Fetch_resolves True (Inr sample_batch)) (str ''https://youtu.be/x'') Home_initial)
       = JArr [sample_clip, sample_clip_without_start_time]
   \<and> read_property sample_platform sample_clip (str ''start_time'') = Inr (JNum 0)
   \<and> read_property sample_platform sample_clip_without_start_time (str ''start_time'') = Inr JUndefined
   \<and> error (handleSubmit sample_platform (Fetch_resolves True (Inr sample_batch)) (str ''https://youtu.be/x'') Home_initial) = []"
  by (simp add: submit_defs sample_batch_def sample_clip_def sample_clip_without_start_time_def str_def)

text \<open>
  C2, what the code does when the decoded object has no \<open>clips\<close> property:
  \<open>setClips\<close> gets the empty array and \<open>setVideoId\<close> the identifier or the empty string,
  and then \<open>data.clips.map\<close> reads \<open>map\<close> from \<open>undefined\<close>. The \<open>TypeError\<close> goes to
  the catch clause, its message becomes the error message, and no debug data is published:
  the submission ends as a failure.
\<close>

theorem absent_clips_field_ends_in_error:
  assumes "received_data P outcome = Inr (JObj props)"
    and "own_property props (str ''clips'') = JUndefined"
  shows "clips (handleSubmit P outcome youtubeUrl s) = JArr []
       \<and> videoId (handleSubmit P outcome youtubeUrl s)
           = or_else P (own_property props (str ''video_id'')) (JStr [])
       \<and> error (handleSubmit P outcome youtubeUrl s) = TypeError_message P Nullish_read
       \<and> debugData (handleSubmit P outcome youtubeUrl s) = debugData s
       \<and> \<not> isLoading (handleSubmit P outcome youtubeUrl s)"
  by (simp add: handleSubmit_def handleSubmit_settle_alt try_block_def assms(1)
      publish_absent_clips [OF assms(2)] catch_clause_def thrown_message_def TypeError_def
      handleSubmit_start_def)

theorem absent_clips_field_ends_in_error_sample:
  "received_data sample_platform
     (Fetch_resolves True (Inr (JObj [(str ''video_id'', JStr (str ''v1''))])))
     = Inr (JObj [(str ''video_id'', JStr (str ''v1''))])
   \<and> clips (handleSubmit sample_platform
        (Fetch_resolves True (Inr (JObj [(str ''video_id'', JStr (str ''v1''))])))
        (str ''https://youtu.be/x'') Home_initial) = JArr []
   \<and> videoId (handleSubmit sample_platform
        (Fetch_resolves True (Inr (JObj [(str ''video_id'', JStr (str ''v1''))])))
        (str ''https://youtu.be/x'') Home_initial) = JStr (str ''v1'')
   \<and> error (handleSubmit sample_platform
        (Fetch_resolves True (Inr (JObj [(str ''video_id'', JStr (str ''v1''))])))
        (str ''https://youtu.be/x'') Home_initial) = str ''Cannot read properties of undefined''
   \<and> error (handleSubmit sample_platform
        (Fetch_resolves True (Inr (JObj [(str ''video_id'', JStr (str ''v1''))])))
        (str ''https://youtu.be/x'') Home_initial) \<noteq> []"
proof -
  let ?props = "[(str ''video_id'', JStr (str ''v1''))] :: (jsstring \<times> nat jsval) list"
  have r: "received_data sample_platform (Fetch_resolves True (Inr (JObj ?props))) = Inr (JObj ?props)"
    by (simp add: received_data_def unwrap_envelope_def own_property_def str_def)
  have c: "own_property ?props (str ''clips'') = JUndefined"
    by (simp add: own_property_def str_def)
  have v: "or_else sample_platform (own_property ?props (str ''video_id'')) (JStr []) = JStr (str ''v1'')"
    by (simp add: own_property_def or_else_def str_def)
  have m: "TypeError_message sample_platform Nullish_read = str ''Cannot read properties of undefined''"
    by (simp add: sample_platform_def)
  show ?thesis
    using absent_clips_field_ends_in_error [OF r c, of "str ''https://youtu.be/x''" Home_initial] r
    by (simp add: v m) (simp add: str_def)
qed

text \<open>
  C3. Let \<open>p\<close> be an object whose \<open>body\<close> property is absent or falsy, as every payload
  of the shape \<open>{video_id, clips}\<close> is, and let \<open>stringify p\<close> be a text that is not empty
  and that \<open>JSON.parse\<close> reads back as \<open>p\<close>, as \<open>JSON.stringify(p)\<close> is. Then the
  submission that receives \<open>{body: stringify p}\<close> and the one that receives \<open>p\<close> itself
  end in the same state: same clip list, same identifier, same everything else.
\<close>

theorem envelope_and_direct_payload_agree:
  assumes "JSON_parse P (stringify (JObj props)) = Inr (JObj props)"
    and "stringify (JObj props) \<noteq> []"
    and "\<not> ToBoolean P (own_property props (str ''body''))"
  shows "handleSubmit P
           (Fetch_resolves True (Inr (JObj [(str ''body'', JStr (stringify (JObj props)))])))
           youtubeUrl s
       = handleSubmit P (Fetch_resolves True (Inr (JObj props))) youtubeUrl s"
  by (rule handleSubmit_depends_on_received_data)
     (simp add: received_data_envelope [OF assms(2)] received_data_direct [OF assms(3)] assms(1))

theorem envelope_and_direct_payload_agree_witness:
  "JSON_parse sample_platform sample_payload_text = Inr sample_payload
   \<and> sample_payload_text \<noteq> []
   \<and> sample_payload = JObj [(str ''video_id'', JStr (str ''v1'')), (str ''clips'', JArr [])]
   \<and> handleSubmit sample_platform
        (Fetch_resolves True (Inr (JObj [(str ''body'', JStr sample_payload_text)])))
        (str ''https://youtu.be/x'') Home_initial
     = handleSubmit sample_platform (Fetch_resolves True (Inr sample_payload))
        (str ''https://youtu.be/x'') Home_initial
   \<and> clips (handleSubmit sample_platform
        (Fetch_resolves True (Inr (JObj [(str ''body'', JStr sample_payload_text)])))
        (str ''https://youtu.be/x'') Home_initial) = JArr []
   \<and> videoId (handleSubmit sample_platform
        (Fetch_resolves True (Inr (JObj [(str ''body'', JStr sample_payload_text)])))
        (str ''https://youtu.be/x'') Home_initial) = JStr (str ''v1'')"
proof -
  let ?props = "[(str ''video_id'', JStr (str ''v1'')), (str ''clips'', JArr [])] :: (jsstring \<times> nat jsval) list"
  have p: "JSON_parse sample_platform ((\<lambda>v. sample_payload_text) (JObj ?props)) = Inr (JObj ?props)"
    by (simp add: sample_platform_def sample_payload_def)
  have n: "(\<lambda>v::nat jsval. sample_payload_text) (JObj ?props) \<noteq> []"
    by (simp add: sample_payload_text_def str_def)
  have b: "\<not> ToBoolean sample_platform (own_property ?props (str ''body''))"
    by (simp add: own_property_def str_def)
  have e: "handleSubmit sample_platform
        (Fetch_resolves True (Inr (JObj [(str ''body'', JStr sample_payload_text)])))
        (str ''https://youtu.be/x'') Home_initial
     = handleSubmit sample_platform (Fetch_resolves True (Inr sample_payload))
        (str ''https://youtu.be/x'') Home_initial"
    using envelope_and_direct_payload_agree [of sample_platform "\<lambda>v. sample_payload_text" ?props, OF p n b]
    by (simp add: sample_payload_def)
  have r: "received_data sample_platform (Fetch_resolves True (Inr sample_payload)) = Inr sample_payload"
    unfolding sample_payload_def by (rule received_data_direct [OF b])
  have c: "read_property sample_platform sample_payload (str ''clips'') = Inr (JArr [])"
    by (simp add: sample_payload_def own_property_def str_def)
  have v: "videoId (handleSubmit sample_platform (Fetch_resolves True (Inr sample_payload))
        (str ''https://youtu.be/x'') Home_initial) = JStr (str ''v1'')"
    by (simp add: submit_defs sample_payload_def str_def)
  show ?thesis
    using p n e handleSubmit_array(1) [OF r c, of "str ''https://youtu.be/x''" Home_initial] v
    by (simp add: sample_payload_def)
qed

text \<open>
  C7, what the code does with the clips of a successful submission. The debug data is
  the clip list with \<open>s3_url\<close> set to \<open>undefined\<close> in every clip, and for clips that
  are objects as a JSON decoder builds them the debug section prints the clip list with
  the \<open>s3_url\<close> property removed. But before that the same try block has written the
  decoded response and its \<open>clips\<close>, as they arrived and with every \<open>s3_url\<close>, to the
  console with \<open>console.log\<close>.
\<close>

theorem raw_clips_are_logged_to_the_console:
  assumes "received_data P outcome = Inr data"
    and "read_property P data (str ''clips'') = Inr (JArr cs)"
  shows "[JStr (str ''API Response:''), data]
           \<in> set (console (handleSubmit P outcome youtubeUrl s))
       \<and> [JStr (str ''Clips:''), JArr cs]
           \<in> set (console (handleSubmit P outcome youtubeUrl s))
       \<and> clips (handleSubmit P outcome youtubeUrl s) = JArr cs
       \<and> debugData (handleSubmit P outcome youtubeUrl s) = JArr (map sanitize cs)
       \<and> (list_all is_clip_object cs \<longrightarrow>
            debug_section P (handleSubmit P outcome youtubeUrl s)
              = Some (JArr (map spec_without_s3_url cs))
          \<and> list_all (\<lambda>d. \<not> has_property (str ''s3_url'') d) (map spec_without_s3_url cs))"
proof -
  let ?s' = "handleSubmit P outcome youtubeUrl s"
  have c: "clips ?s' = JArr cs"
    by (rule handleSubmit_array(1) [OF assms(1,2)])
  have d: "debugData ?s' = JArr (map sanitize cs)"
    by (rule handleSubmit_array(2) [OF assms(1,2)])
  have s: "debug_section P ?s' = Some (serialised (JArr (map sanitize cs)))"
    by (simp add: debug_section_def d del: serialised.simps)
  have e: "debug_section P ?s' = Some (JArr (map spec_without_s3_url cs))"
    if "list_all is_clip_object cs"
    using s by (simp only: serialised_sanitized_clips [OF that])
  have f: "list_all (\<lambda>d. \<not> has_property (str ''s3_url'') d) (map spec_without_s3_url cs)"
    by (simp add: list_all_iff spec_without_s3_url_has_none)
  show ?thesis
    using handleSubmit_console [OF assms, of youtubeUrl s] c d e f by blast
qed

theorem raw_clips_are_logged_to_the_console_sample:
  "[JStr (str ''Clips:''), JArr [sample_clip, sample_clip_without_start_time]]
     \<in> set (console (handleSubmit sample_platform (Fetch_resolves True (Inr sample_batch))
          (str ''https://youtu.be/x'') Home_initial))
   \<and> [JStr (str ''API Response:''), sample_batch]
     \<in> set (console (handleSubmit sample_platform (Fetch_resolves True (Inr sample_batch))
          (str ''https://youtu.be/x'') Home_initial))
   \<and> read_property sample_platform sample_clip (str ''s3_url'')
       = Inr (JStr (str ''https://bucket.example/c1.mp4?sig=abc''))
   \<and> list_all is_clip_object [sample_clip, sample_clip_without_start_time]
   \<and> debug_section sample_platform
        (handleSubmit sample_platform (Fetch_resolves True (Inr sample_batch))
          (str ''https://youtu.be/x'') Home_initial)
       = Some (JArr [spec_without_s3_url sample_clip,
                     spec_without_s3_url sample_clip_without_start_time])
   \<and> \<not> has_property (str ''s3_url'') (spec_without_s3_url sample_clip)"
proof -
  have r: "received_data sample_platform (Fetch_resolves True (Inr sample_batch)) = Inr sample_batch"
    by (simp add: received_data_def unwrap_envelope_def sample_batch_def own_property_def str_def)
  have c: "read_property sample_platform sample_batch (str ''clips'')
       = Inr (JArr [sample_clip, sample_clip_without_start_time])"
    by (simp add: sample_batch_def own_property_def str_def)
  have o: "list_all is_clip_object [sample_clip, sample_clip_without_start_time]"
    by (simp add: is_clip_object_def sample_clip_def sample_clip_without_start_time_def str_def)
  have u: "read_property sample_platform sample_clip (str ''s3_url'')
       = Inr (JStr (str ''https://bucket.example/c1.mp4?sig=abc''))"
    by (simp add: sample_clip_def own_property_def str_def)
  show ?thesis
    using raw_clips_are_logged_to_the_console [OF r c, of "str ''https://youtu.be/x''" Home_initial] o u
    by simp
qed

section \<open>The submission controller\<close>

text \<open>
  C4, what the code does when the response carries a truthy \<open>clips\<close> value that is not
  an array. \<open>setClips(data.clips || [])\<close> stores the value, and only then does
  \<open>data.clips.map\<close> throw: the catch clause sets the error message and the loading flag
  is reset, but the clip list holds the stored value and is not empty. Every failure
  before \<open>setClips\<close> (a rejected fetch, a status that is not ok, a body or an envelope
  that does not parse) leaves the clip list empty, as the facts above show.
\<close>

theorem truthy_non_array_clips_are_stored_before_the_throw:
  assumes "received_data P outcome = Inr data"
    and "read_property P data (str ''clips'') = Inr c"
    and "ToBoolean P c"
    and "call_map P c sanitize = Inl t"
  shows "clips (handleSubmit P outcome youtubeUrl s) = c
       \<and> c \<noteq> JArr []
       \<and> error (handleSubmit P outcome youtubeUrl s) = thrown_message t
       \<and> \<not> isLoading (handleSubmit P outcome youtubeUrl s)
       \<and> debugData (handleSubmit P outcome youtubeUrl s) = debugData s"
proof -
  let ?s0 = "(handleSubmit_start youtubeUrl s)\<lparr>in_flight := in_flight s\<rparr>"
  have p: "try_block P outcome ?s0 = publish P data ?s0"
    by (simp add: try_block_def assms(1))
  have th: "thrown_in_try P outcome = Some t"
    using snd_try_block [of P outcome ?s0] publish_stored_before_throw(1) [OF assms(2-4), of ?s0]
    by (simp add: p)
  have h: "handleSubmit P outcome youtubeUrl s
         = (catch_clause t (fst (try_block P outcome ?s0)))\<lparr>isLoading := False\<rparr>"
    by (simp add: handleSubmit_alt th)
  have c: "clips (handleSubmit P outcome youtubeUrl s) = c"
    using publish_stored_before_throw(2) [OF assms(2-4), of ?s0]
    by (simp add: h p catch_clause_def)
  have n: "c \<noteq> JArr []"
    using assms(4) by auto
  show ?thesis
    using c n handleSubmit_error_message [OF th, of youtubeUrl s] by simp
qed

theorem truthy_non_array_clips_are_stored_before_the_throw_sample:
  "received_data sample_platform
     (Fetch_resolves True (Inr (JObj [(str ''clips'', JStr (str ''abc''))])))
     = Inr (JObj [(str ''clips'', JStr (str ''abc''))])
   \<and> call_map sample_platform (JStr (str ''abc'')) sanitize
       = Inl (Error_instance (str ''data.clips.map is not a function''))
   \<and> clips (handleSubmit sample_platform
        (Fetch_resolves True (Inr (JObj [(str ''clips'', JStr (str ''abc''))])))
        (str ''https://youtu.be/x'') Home_initial) = JStr (str ''abc'')
   \<and> error (handleSubmit sample_platform
        (Fetch_resolves True (Inr (JObj [(str ''clips'', JStr (str ''abc''))])))
        (str ''https://youtu.be/x'') Home_initial) = str ''data.clips.map is not a function''
   \<and> \<not> isLoading (handleSubmit sample_platform
        (Fetch_resolves True (Inr (JObj [(str ''clips'', JStr (str ''abc''))])))
        (str ''https://youtu.be/x'') Home_initial)
   \<and> debugData (handleSubmit sample_platform
        (Fetch_resolves True (Inr (JObj [(str ''clips'', JStr (str ''abc''))])))
        (str ''https://youtu.be/x'') Home_initial) = JNull"
proof -
  let ?data = "JObj [(str ''clips'', JStr (str ''abc''))] :: nat jsval"
  have r: "received_data sample_platform (Fetch_resolves True (Inr ?data)) = Inr ?data"
    by (simp add: received_data_def unwrap_envelope_def own_property_def str_def)
  have c: "read_property sample_platform ?data (str ''clips'') = Inr (JStr (str ''abc''))"
    by (simp add: own_property_def)
  have b: "ToBoolean sample_platform (JStr (str ''abc''))"
    by (simp add: str_def)
  have m: "call_map sample_platform (JStr (str ''abc'')) sanitize
       = Inl (Error_instance (str ''data.clips.map is not a function''))"
    by (simp add: TypeError_def sample_platform_def)
  have t: "thrown_message (Error_instance (str ''data.clips.map is not a function''))
       = str ''data.clips.map is not a function''"
    by (simp add: thrown_message_def)
  show ?thesis
    using truthy_non_array_clips_are_stored_before_the_throw
      [OF r c b m, of "str ''https://youtu.be/x''" Home_initial] r m
    by (simp add: t) (simp add: Home_initial_def)
qed

text \<open>
  C10. The start of a submission empties the clip list, the error message and the
  identifier, and leaves the debug data and so the debug section as they were; when the
  try block then throws, the debug data of the earlier submission is still the one
  shown after \<open>handleSubmit\<close> has finished.
\<close>

theorem new_submission_keeps_debug_data:
  "clips (handleSubmit_start youtubeUrl s) = JArr []
   \<and> error (handleSubmit_start youtubeUrl s) = []
   \<and> videoId (handleSubmit_start youtubeUrl s) = JStr []
   \<and> debugData (handleSubmit_start youtubeUrl s) = debugData s
   \<and> debug_section P (handleSubmit_start youtubeUrl s) = debug_section P s
   \<and> (thrown_in_try P outcome \<noteq> None \<longrightarrow>
        debugData (handleSubmit P outcome youtubeUrl s) = debugData s
      \<and> debug_section P (handleSubmit P outcome youtubeUrl s) = debug_section P s)"
proof -
  let ?s0 = "(handleSubmit_start youtubeUrl s)\<lparr>in_flight := in_flight s\<rparr>"
  have d: "debugData (handleSubmit P outcome youtubeUrl s) = debugData s"
    if "thrown_in_try P outcome = Some err" for err
    using try_block_thrown_debugData [OF that, of ?s0]
    by (simp add: handleSubmit_alt that catch_clause_def) (simp add: handleSubmit_start_def)
  have f: "thrown_in_try P outcome \<noteq> None \<longrightarrow>
        debugData (handleSubmit P outcome youtubeUrl s) = debugData s
      \<and> debug_section P (handleSubmit P outcome youtubeUrl s) = debug_section P s"
    using d by (cases "thrown_in_try P outcome") (simp_all add: debug_section_def)
  have b: "clips (handleSubmit_start youtubeUrl s) = JArr []
   \<and> error (handleSubmit_start youtubeUrl s) = []
   \<and> videoId (handleSubmit_start youtubeUrl s) = JStr []
   \<and> debugData (handleSubmit_start youtubeUrl s) = debugData s
   \<and> debug_section P (handleSubmit_start youtubeUrl s) = debug_section P s"
    by (simp add: handleSubmit_start_def debug_section_def)
  show ?thesis
    using b f by blast
qed

theorem new_submission_keeps_debug_data_witness:
  "debugData (handleSubmit sample_platform (Fetch_resolves True (Inr sample_batch))
       (str ''https://youtu.be/x'') Home_initial) = JArr (map sanitize [sample_clip, sample_clip_without_start_time])
   \<and> thrown_in_try sample_platform (Fetch_rejects (Error_instance (str ''Failed to fetch''))) \<noteq> None
   \<and> debugData (handleSubmit_start (str ''https://youtu.be/y'')
        (handleSubmit sample_platform (Fetch_resolves True (Inr sample_batch))
          (str ''https://youtu.be/x'') Home_initial))
       = JArr (map sanitize [sample_clip, sample_clip_without_start_time])
   \<and> clips (handleSubmit_start (str ''https://youtu.be/y'')
        (handleSubmit sample_platform (Fetch_resolves True (Inr sample_batch))
          (str ''https://youtu.be/x'') Home_initial)) = JArr []
   \<and> debugData (handleSubmit sample_platform (Fetch_rejects (Error_instance (str ''Failed to fetch'')))
        (str ''https://youtu.be/y'')
        (handleSubmit sample_platform (Fetch_resolves True (Inr sample_batch))
          (str ''https://youtu.be/x'') Home_initial))
       = JArr (map sanitize [sample_clip, sample_clip_without_start_time])"
proof -
  let ?s1 = "handleSubmit sample_platform (Fetch_resolves True (Inr sample_batch))
       (str ''https://youtu.be/x'') Home_initial"
  let ?o = "Fetch_rejects (Error_instance (str ''Failed to fetch'')) :: nat fetch_outcome"
  have r: "received_data sample_platform (Fetch_resolves True (Inr sample_batch)) = Inr sample_batch"
    by (simp add: received_data_def unwrap_envelope_def sample_batch_def own_property_def str_def)
  have c: "read_property sample_platform sample_batch (str ''clips'')
       = Inr (JArr [sample_clip, sample_clip_without_start_time])"
    by (simp add: sample_batch_def own_property_def str_def)
  have d: "debugData ?s1 = JArr (map sanitize [sample_clip, sample_clip_without_start_time])"
    by (rule handleSubmit_array(2) [OF r c])
  have t: "thrown_in_try sample_platform ?o \<noteq> None"
    by (simp add: thrown_in_try_def try_block_def received_data_def)
  show ?thesis
    using new_submission_keeps_debug_data [of "str ''https://youtu.be/y''" ?s1 sample_platform ?o] d t
    by simp
qed

text \<open>
  C6. The regular expression of \<open>isValidYoutubeUrl\<close> accepts exactly the texts of the
  specification's pattern. For a text outside the pattern the submit button is disabled,
  and the form gets no submit event from a disabled submit button, so the submission
  changes no state and sends no request; the hint under the field, which is how the
  page reports the invalid input, shows when the text is not empty.
\<close>

theorem invalid_url_disables_submit_button:
  assumes "\<not> spec_video_url field"
  shows "\<not> isValidYoutubeUrl field
       \<and> submit_disabled field (isLoading s)
       \<and> press_submit field s = s
       \<and> requests (press_submit field s) = requests s
       \<and> shows_invalid_hint field = (field \<noteq> [])"
proof -
  from assms have n: "\<not> isValidYoutubeUrl field"
    by (simp add: isValidYoutubeUrl_is_the_pattern)
  then have d: "submit_disabled field (isLoading s)"
    by (simp add: submit_disabled_def)
  then have p: "press_submit field s = s"
    by (simp add: press_submit_def)
  show ?thesis
    using n d p by (simp add: shows_invalid_hint_def)
qed

theorem invalid_url_disables_submit_button_witness:
  "\<not> spec_video_url (str ''not a url'')
   \<and> \<not> isValidYoutubeUrl (str ''not a url'')
   \<and> submit_disabled (str ''not a url'') (isLoading (Home_initial :: nat home))
   \<and> press_submit (str ''not a url'') (Home_initial :: nat home) = Home_initial
   \<and> shows_invalid_hint (str ''not a url'')"
  using invalid_url_disables_submit_button [OF not_a_url_is_invalid, of "Home_initial :: nat home"]
    not_a_url_is_invalid
  by (simp add: str_def)

text \<open>
  C5. A submit event of the form while the loading flag is set changes nothing: the
  state, and with it the list of requests sent, stays as it is. So over any sequence of
  submit events and settlements from the initial state, at most one request is
  outstanding, and one is outstanding exactly while the loading flag is set.
\<close>

theorem submit_while_loading_is_a_no_op:
  "(isLoading s \<longrightarrow>
      form_submit field s = s \<and> requests (form_submit field s) = requests s
    \<and> press_submit field s = s)
   \<and> in_flight (run P evs) \<le> 1
   \<and> (isLoading (run P evs) \<longleftrightarrow> in_flight (run P evs) = 1)"
  using run_keeps_one_request [of P evs]
  by (simp add: form_submit_while_loading press_submit_while_loading)

theorem submit_while_loading_is_a_no_op_witness:
  "isLoading (form_submit (str ''https://youtu.be/x'') (Home_initial :: nat home))
   \<and> requests (form_submit (str ''https://youtu.be/x'') (Home_initial :: nat home))
       = [clip_request (str ''https://youtu.be/x'')]
   \<and> form_submit (str ''https://youtu.be/y'') (form_submit (str ''https://youtu.be/x'') (Home_initial :: nat home))
       = form_submit (str ''https://youtu.be/x'') Home_initial
   \<and> in_flight (run sample_platform
        [Form_submit (str ''https://youtu.be/x''), Form_submit (str ''https://youtu.be/y''),
         Settles (Fetch_resolves True (Inr sample_batch)), Form_submit (str ''https://youtu.be/z'')]) \<le> 1"
proof -
  let ?s = "form_submit (str ''https://youtu.be/x'') (Home_initial :: nat home)"
  have t: "trim (str ''https://youtu.be/x'') = str ''https://youtu.be/x''"
    by (simp add: trim_def is_trimmed_unit_def str_def)
  have l: "isLoading ?s"
    by (simp add: form_submit_def UrlInput_handleSubmit_def t handleSubmit_start_def Home_initial_def)
       (simp add: str_def)
  have r: "requests ?s = [clip_request (str ''https://youtu.be/x'')]"
    by (simp add: form_submit_def UrlInput_handleSubmit_def t handleSubmit_start_def Home_initial_def)
       (simp add: str_def)
  show ?thesis
    using submit_while_loading_is_a_no_op [of ?s "str ''https://youtu.be/y''" sample_platform
        "[Form_submit (str ''https://youtu.be/x''), Form_submit (str ''https://youtu.be/y''),
         Settles (Fetch_resolves True (Inr sample_batch)), Form_submit (str ''https://youtu.be/z'')]"] l r
    by simp
qed

section \<open>The clip interactions\<close>

text \<open>
  C8, as the code has it. When the clipboard interface is there and the clip has an
  \<open>s3_url\<close> to read, \<open>copyUrl\<close> sets \<open>copied\<close> at once, whether the write later
  resolves or rejects, and schedules one timer of 2000 ms whose firing resets the flag;
  \<open>liked\<close>, \<open>showPreview\<close> and \<open>loading\<close> are untouched, and so is every other card
  of the grid. Only when \<open>navigator.clipboard\<close> is missing does the state stay as it was,
  and then the \<open>TypeError\<close> leaves \<open>copyUrl\<close>.
\<close>

theorem copyUrl_sets_copied_when_write_starts:
  assumes "clipboard \<noteq> Clipboard_absent"
    and "read_property P clip (str ''s3_url'') = Inr u"
  shows "snd (copyUrl P clipboard clip c) = None
       \<and> copied (fst (copyUrl P clipboard clip c))
       \<and> timers (fst (copyUrl P clipboard clip c)) = timers c @ [(2000, Set_copied False)]
       \<and> \<not> copied (timer_fires (length (timers c)) (fst (copyUrl P clipboard clip c)))
       \<and> liked (fst (copyUrl P clipboard clip c)) = liked c
       \<and> showPreview (fst (copyUrl P clipboard clip c)) = showPreview c
       \<and> loading (fst (copyUrl P clipboard clip c)) = loading c
       \<and> copyUrl P Clipboard_absent clip c = (c, Some (TypeError P Nullish_read))
       \<and> (j \<noteq> i \<longrightarrow> on_card i (\<lambda>c. fst (copyUrl P clipboard clip c)) cards ! j = cards ! j)"
proof -
  have a: "copyUrl P Clipboard_absent clip c = (c, Some (TypeError P Nullish_read))"
    by (simp add: copyUrl_def)
  have o: "j \<noteq> i \<longrightarrow> on_card i (\<lambda>c. fst (copyUrl P clipboard clip c)) cards ! j = cards ! j"
    by (simp add: on_card_def)
  show ?thesis
    using a o by (simp add: copyUrl_started [OF assms] timer_fires_def nth_append)
qed

theorem copyUrl_sets_copied_when_write_starts_witness:
  "read_property sample_platform sample_clip (str ''s3_url'')
     = Inr (JStr (str ''https://bucket.example/c1.mp4?sig=abc''))
   \<and> copied (fst (copyUrl sample_platform Write_resolves sample_clip card_initial))
   \<and> clipboard_texts (fst (copyUrl sample_platform Write_resolves sample_clip card_initial))
       = [str ''https://bucket.example/c1.mp4?sig=abc'']
   \<and> timers (fst (copyUrl sample_platform Write_resolves sample_clip card_initial))
       = [(2000, Set_copied False)]
   \<and> \<not> copied (timer_fires 0 (fst (copyUrl sample_platform Write_resolves sample_clip card_initial)))
   \<and> on_card 0 (\<lambda>c. fst (copyUrl sample_platform Write_resolves sample_clip c))
        [card_initial, card_initial] ! 1 = card_initial"
proof -
  have r: "read_property sample_platform sample_clip (str ''s3_url'')
     = Inr (JStr (str ''https://bucket.example/c1.mp4?sig=abc''))"
    by (simp add: sample_clip_def own_property_def str_def)
  have n: "Write_resolves \<noteq> Clipboard_absent"
    by simp
  have t: "clipboard_texts (fst (copyUrl sample_platform Write_resolves sample_clip card_initial))
       = [str ''https://bucket.example/c1.mp4?sig=abc'']"
    by (simp add: copyUrl_def r card_initial_def)
  show ?thesis
    using copyUrl_sets_copied_when_write_starts
      [OF n r, of card_initial 1 0 "[card_initial, card_initial]"] r t
    by (simp add: card_initial_def)
qed

text \<open>
  C8 as stated fails: when the clipboard write is rejected, \<open>copied\<close> is set all the
  same and the timer is scheduled, so the state of the card has changed.
\<close>

theorem copyUrl_sets_copied_when_write_fails:
  "\<not> copied card_initial
   \<and> copyUrl sample_platform (Write_rejects (Error_instance (str ''Write permission denied.'')))
       sample_clip card_initial
     = (card_initial\<lparr>copied := True, timers := [(2000, Set_copied False)]\<rparr>, None)
   \<and> copied (fst (copyUrl sample_platform
        (Write_rejects (Error_instance (str ''Write permission denied.''))) sample_clip card_initial))
   \<and> fst (copyUrl sample_platform
        (Write_rejects (Error_instance (str ''Write permission denied.''))) sample_clip card_initial)
       \<noteq> card_initial"
  by (simp add: copyUrl_def sample_clip_def own_property_def card_initial_def str_def)

text \<open>
  C9. \<open>handleDownload\<close> sets \<open>loading\<close> before its first \<open>await\<close>, and however the
  fetch, the blob and the file name turn out, it ends with \<open>loading\<close> reset and with
  \<open>liked\<close>, \<open>copied\<close> and \<open>showPreview\<close> as they were when the request settled; a
  failure adds one line to the console and changes nothing else.
\<close>

theorem download_always_resets_loading:
  "loading (handleDownload_start c)
   \<and> \<not> loading (handleDownload_settle P outcome clip c')
   \<and> liked (handleDownload_settle P outcome clip c') = liked c'
   \<and> copied (handleDownload_settle P outcome clip c') = copied c'
   \<and> showPreview (handleDownload_settle P outcome clip c') = showPreview c'
   \<and> \<not> loading (handleDownload P outcome clip c)
   \<and> liked (handleDownload P outcome clip c) = liked c
   \<and> copied (handleDownload P outcome clip c) = copied c
   \<and> showPreview (handleDownload P outcome clip c) = showPreview c
   \<and> (snd (download_try P outcome clip c') = Some err \<longrightarrow>
        handleDownload_settle P outcome clip c'
          = c'\<lparr>console_errors := console_errors c' @ [err], loading := False\<rparr>)"
  using handleDownload_settle_thrown [of P outcome clip c' err]
  by (simp add: handleDownload_def handleDownload_settle_frame) (simp add: handleDownload_start_def)

theorem download_always_resets_loading_witness:
  "loading (handleDownload_start card_initial)
   \<and> snd (download_try sample_platform (Download_fetch_rejects (Error_instance (str ''Failed to fetch'')))
        sample_clip (toggleLike (handleDownload_start card_initial)))
       = Some (Error_instance (str ''Failed to fetch''))
   \<and> handleDownload_settle sample_platform
        (Download_fetch_rejects (Error_instance (str ''Failed to fetch'')))
        sample_clip (toggleLike (handleDownload_start card_initial))
       = card_initial\<lparr>liked := True, console_errors := [Error_instance (str ''Failed to fetch'')]\<rparr>
   \<and> \<not> loading (handleDownload sample_platform Download_blob_resolves sample_clip card_initial)
   \<and> saved_files (handleDownload sample_platform Download_blob_resolves sample_clip card_initial)
       = [str ''c1.mp4'']"
proof -
  let ?o = "Download_fetch_rejects (Error_instance (str ''Failed to fetch''))"
  let ?c = "toggleLike (handleDownload_start card_initial)"
  have t: "snd (download_try sample_platform ?o sample_clip ?c) = Some (Error_instance (str ''Failed to fetch''))"
    by (simp add: download_try_def sample_clip_def own_property_def str_def)
  have f: "saved_files (handleDownload sample_platform Download_blob_resolves sample_clip card_initial)
       = [str ''c1.mp4'']"
    by (simp add: handleDownload_def handleDownload_settle_def handleDownload_start_def
        download_try_def fileName_def sample_clip_def own_property_def card_initial_def str_def)
  have l: "\<not> loading (handleDownload sample_platform Download_blob_resolves sample_clip card_initial)"
    using download_always_resets_loading
      [of card_initial sample_platform Download_blob_resolves sample_clip card_initial]
    by simp
  have s: "handleDownload_settle sample_platform ?o sample_clip ?c
       = ?c\<lparr>console_errors := console_errors ?c @ [Error_instance (str ''Failed to fetch'')],
            loading := False\<rparr>"
    using download_always_resets_loading
      [of card_initial sample_platform ?o sample_clip ?c "Error_instance (str ''Failed to fetch'')"] t
    by simp
  have i: "loading (handleDownload_start card_initial)"
    by (simp add: handleDownload_start_def)
  show ?thesis
    using t f l i by (simp add: s) (simp add: toggleLike_def handleDownload_start_def card_initial_def)
qed

end
